theory Spec2Isabelle
  imports Main "HOL-Library.Product_Lexorder" "HOL-Library.Option_ord" "HOL-Library.Log_Nat"
    "HOL-Library.Word"
begin

section \<open>The cashback sale service (src/sale\_service.js)\<close>

text \<open>
  A shallow embedding of the campaign engine and of the cashback ledger of
  \<^verbatim>\<open>SaleService\<close>. Conventions:
  \<^item> monetary amounts, quantities and percentages are integers (minor currency units);
    JavaScript computes \<^verbatim>\<open>+\<close>, \<^verbatim>\<open>-\<close> and \<^verbatim>\<open>*\<close> on them exactly while the results stay
    below \<open>2^53\<close>, which the model takes for granted;
  \<^item> a JavaScript string is the list of its UTF-16 code units, each a 16-bit word; the
    names of the errors and the rejection reasons, constants of the source, are written
    as Isabelle strings;
  \<^item> a property that may be \<^verbatim>\<open>undefined\<close> is an \<open>option\<close>;
  \<^item> \<^verbatim>\<open>throw new Error('X')\<close> is the value \<open>Inl (Error ''X'')\<close>, a property read on
    \<^verbatim>\<open>undefined\<close> is \<open>Inl TypeError\<close>;
  \<^item> the sales collection is a list of documents, each with its \<open>docId\<close>;
  \<^item> dates are integer timestamps.
\<close>

subsection \<open>Data\<close>

type_synonym jsString = "16 word list"

text \<open>A string literal of the source: its characters are below \<open>U+0100\<close>, one unit each.\<close>

definition str :: "string \<Rightarrow> jsString" where
  "str s = map of_char s"

datatype error = Error string | TypeError

datatype status = PENDING | AVAILABLE | USED | CANCELED | EXPIRED

text \<open>The keys of \<^verbatim>\<open>rulesKeys\<close> in \<^verbatim>\<open>_checkItemsThatFollowRules\<close>, in the source's order.\<close>

datatype ruleKey =
  Kgroup | Kcategory1 | Kcategory2 | Kcategory3 | Kcategory4 | Kgender | KcolorCode | Kmodel | Ksize

text \<open>A rule is an object read at these keys: \<^verbatim>\<open>rule[ruleKey]\<close>.\<close>

type_synonym rule = "ruleKey \<Rightarrow> jsString option"

record item =
  partnumber :: jsString
  unitPrice :: int
  quantity :: int
  group_facet :: "jsString option"
  category1 :: "jsString option"
  category2 :: "jsString option"
  category3 :: "jsString option"
  category4 :: "jsString option"
  gender :: "jsString option"
  colorCode :: "jsString option"
  model :: "jsString option"
  size_facet :: "jsString option"
  totalPrice :: "int option"
  matchedCampaigns :: "jsString list option"
  eligible :: "bool option"
  unitCashback :: "int option"
  totalCashback :: "int option"

text \<open>
  An entry of the campaign's \<^verbatim>\<open>paymentMethod\<close> allow-list (a type and an optional list of
  card flags) and a payment method of a sale (a type and the flag used).
\<close>

record campaignPayment =
  pm_type :: jsString
  pm_flags :: "jsString list option"

record salePayment =
  sp_type :: jsString
  sp_flag :: "jsString option"

text \<open>
  The campaign snapshot. The campaign schema is not part of the sources; the fields are
  the ones the service reads. \<^verbatim>\<open>name\<close>, \<^verbatim>\<open>status\<close>, \<^verbatim>\<open>startDate\<close> and \<^verbatim>\<open>endDate\<close> are only
  copied into a reporting snapshot and are left out.
\<close>

record campaign =
  code :: jsString
  rules :: "rule list"
  percentCashback :: "int option"
  valueCashback :: "int option"
  cashbackLimit :: "int option"
  minSaleValue :: "int option"
  maxProductsCart :: "int option"
  salesChannel :: "jsString list"
  subsidiariesList :: "jsString list option"
  paymentMethod :: "campaignPayment list"
  daysToCreditPdv :: "int option"
  daysToCreditEcom :: "int option"
  daysToRescue :: "int option"
  cpfParticipationLimit :: "int option"

text \<open>
  A sale as the service receives and annotates it. \<open>origin\<close> is \<^verbatim>\<open>sale.order.origin\<close>,
  \<open>customerId\<close> is \<^verbatim>\<open>sale.customer.id\<close>; \<open>invoice\<close> is \<open>None\<close> when the sale has no invoice
  object and \<open>Some k\<close> when it has one whose \<^verbatim>\<open>key\<close> is \<open>k\<close>.
\<close>

record sale =
  items :: "item list"
  sale_salesChannel :: jsString
  origin :: jsString
  sale_paymentMethod :: "salePayment list"
  verification :: int
  customerId :: jsString
  invoice :: "jsString option option"
  usedCashback :: bool
  usedCashbackValue :: int
  sale_matchedCampaigns :: "jsString list option"
  usedCampaign :: "jsString option"
  sale_totalCashback :: "int option"
  creditDate :: "int option"
  expirateDate :: "int option"

text \<open>
  A ledger entry \<^verbatim>\<open>{usedValue, invoiceKey, saleId, date}\<close>. The entries of a redemption's
  \<^verbatim>\<open>history\<close> have the same shape, with the key stored under \<^verbatim>\<open>from\<close>.
\<close>

record ledgerEntry =
  usedValue :: int
  entry_invoiceKey :: "jsString option"
  saleId :: nat
  date :: int

text \<open>The summary \<^verbatim>\<open>{usedCampaign, creditDate, expirateDate, totalCashback}\<close> of a candidate.\<close>

type_synonym summary = "jsString option \<times> int option \<times> int option \<times> int option"

text \<open>A document of the sales collection: the sale's fields and the ledger's.\<close>

record doc = sale +
  docId :: nat
  cpf :: jsString
  status :: status
  invoiceKey :: "jsString option"
  availableCashback :: "int option"
  cashbackUseHistory :: "ledgerEntry list"
  history :: "ledgerEntry list option"
  saleWithOtherCampaigns :: "summary list"

text \<open>The outcome \<^verbatim>\<open>{isValid, reason}\<close> of matching a campaign.\<close>

record verdict =
  isValid :: bool
  reason :: "string option"

text \<open>JavaScript truthiness of an optional number and of an optional string.\<close>

definition truthy :: "int option \<Rightarrow> bool" where
  "truthy v = (case v of None \<Rightarrow> False | Some n \<Rightarrow> n \<noteq> 0)"

definition truthyStr :: "jsString option \<Rightarrow> bool" where
  "truthyStr v = (case v of None \<Rightarrow> False | Some s \<Rightarrow> s \<noteq> [])"

subsection \<open>Item Normalizer: \<^verbatim>\<open>_processItems\<close>\<close>

text \<open>
  \<^verbatim>\<open>String.prototype.split\<close> on a one-unit separator (the full stop is \<open>0x2E\<close>): at least
  one segment.
\<close>

fun split_on :: "16 word \<Rightarrow> jsString \<Rightarrow> jsString list" where
  "split_on c [] = [[]]"
| "split_on c (x # xs) =
     (if x = c then [] # split_on c xs
      else (let r = split_on c xs in (x # hd r) # tl r))"

text \<open>
  \<^verbatim>\<open>String.prototype.trim\<close> removes the leading and trailing white space and line
  terminators of ECMAScript: tab, line feed, vertical tab, form feed, carriage return,
  space, no-break space \<open>U+00A0\<close>, \<open>U+1680\<close>, \<open>U+2000\<close> to \<open>U+200A\<close>, the line and paragraph
  separators \<open>U+2028\<close> and \<open>U+2029\<close>, \<open>U+202F\<close>, \<open>U+205F\<close>, \<open>U+3000\<close> and the byte order
  mark \<open>U+FEFF\<close> (the space separators are those of Unicode 6.3 and later, which no
  longer count \<open>U+180E\<close>). All of them are single code units, and no surrogate is white
  space, so trimming code units is trimming characters.
\<close>

definition isSpace :: "16 word \<Rightarrow> bool" where
  "isSpace c =
     (c \<in> set [0x0009, 0x000A, 0x000B, 0x000C, 0x000D, 0x0020, 0x00A0, 0x1680,
               0x2000, 0x2001, 0x2002, 0x2003, 0x2004, 0x2005, 0x2006, 0x2007, 0x2008,
               0x2009, 0x200A, 0x2028, 0x2029, 0x202F, 0x205F, 0x3000, 0xFEFF])"

definition trim :: "jsString \<Rightarrow> jsString" where
  "trim s = rev (dropWhile isSpace (rev (dropWhile isSpace s)))"

text \<open>
  The body of the \<^verbatim>\<open>forEach\<close> of \<^verbatim>\<open>_processItems\<close>. The array destructuring
  \<^verbatim>\<open>[model, colorCode, size] = partnumber.split('.')\<close> leaves a missing segment
  \<^verbatim>\<open>undefined\<close>, and \<^verbatim>\<open>.trim()\<close> on it raises a TypeError. The exception leaves the
  request object with the fields written before it; the request is dropped with the
  failure, so the model returns the error alone.
\<close>

definition processItem :: "item \<Rightarrow> error + item" where
  "processItem it =
     (case split_on 0x2E (partnumber it) of
        m # c # s # _ \<Rightarrow>
          Inr (it\<lparr>model := Some (trim m), colorCode := Some (trim c), size_facet := Some (trim s),
                 totalPrice := Some (unitPrice it * quantity it)\<rparr>)
      | _ \<Rightarrow> Inl TypeError)"

fun processItems :: "item list \<Rightarrow> error + item list" where
  "processItems [] = Inr []"
| "processItems (it # its) =
     (case processItem it of
        Inl e \<Rightarrow> Inl e
      | Inr it' \<Rightarrow> (case processItems its of Inl e \<Rightarrow> Inl e | Inr its' \<Rightarrow> Inr (it' # its')))"

text \<open>The segments of an item's part number.\<close>

definition segments :: "item \<Rightarrow> jsString list" where
  "segments it = split_on 0x2E (partnumber it)"

text \<open>A raw item as a request carries it: nothing derived yet.\<close>

definition rawItem :: "jsString \<Rightarrow> int \<Rightarrow> int \<Rightarrow> item" where
  "rawItem pn price qty =
     \<lparr>partnumber = pn, unitPrice = price, quantity = qty, group_facet = None,
      category1 = None, category2 = None, category3 = None, category4 = None, gender = None,
      colorCode = None, model = None, size_facet = None, totalPrice = None,
      matchedCampaigns = None, eligible = None, unitCashback = None, totalCashback = None\<rparr>"

text \<open>
  A part number with four segments, the first two padded with white space: a space,
  \<^verbatim>\<open>A1\<close> and a no-break space; a line separator, \<^verbatim>\<open>RED\<close>, a space and a byte order mark;
  \<^verbatim>\<open>M\<close>; \<^verbatim>\<open>x\<close>.
\<close>

definition exPartNumber :: jsString where
  "exPartNumber =
     str '' A1'' @ [0x00A0] @ str ''.'' @ [0x2028] @ str ''RED '' @ [0xFEFF] @ str ''.M.x''"

subsection \<open>Campaign Rule Matcher\<close>

definition checkSalesChannelRule :: "campaign \<Rightarrow> sale \<Rightarrow> bool" where
  "checkSalesChannelRule c s = (sale_salesChannel s \<in> set (salesChannel c))"

definition checkSubsidiariesChannelRule :: "campaign \<Rightarrow> sale \<Rightarrow> bool" where
  "checkSubsidiariesChannelRule c s =
     (case subsidiariesList c of
        None \<Rightarrow> True
      | Some l \<Rightarrow> if length l < 1 then True else origin s \<in> set l)"

text \<open>
  The body of the \<^verbatim>\<open>forEach\<close> of \<^verbatim>\<open>_checkPaymentMethodRule\<close>: only the first entry of the
  campaign with the payment's type is looked at; a flag list that is present (an array is
  truthy and differs from \<^verbatim>\<open>''\<close>) must hold the payment's flag.
\<close>

definition checkPayment :: "campaign \<Rightarrow> bool \<Rightarrow> salePayment \<Rightarrow> bool" where
  "checkPayment c result pM =
     (case filter (\<lambda>p. pm_type p = sp_type pM) (paymentMethod c) of
        [] \<Rightarrow> False
      | p # _ \<Rightarrow>
          if pm_type p \<in> set [str ''CREDIT_CARD'', str ''DEBIT_CARD''] \<and> pm_flags p \<noteq> None then
            (case (pm_flags p, sp_flag pM) of
               (Some fl, Some f) \<Rightarrow> if f \<notin> set fl then False else result
             | _ \<Rightarrow> False)
          else result)"

definition checkPaymentMethodRule :: "campaign \<Rightarrow> sale \<Rightarrow> bool" where
  "checkPaymentMethodRule c s = foldl (checkPayment c) True (sale_paymentMethod s)"

definition rulesKeys :: "ruleKey list" where
  "rulesKeys =
     [Kgroup, Kcategory1, Kcategory2, Kcategory3, Kcategory4, Kgender, KcolorCode, Kmodel, Ksize]"

text \<open>\<^verbatim>\<open>item[ruleKey]\<close>.\<close>

definition itemFacet :: "item \<Rightarrow> ruleKey \<Rightarrow> jsString option" where
  "itemFacet it k =
     (case k of
        Kgroup \<Rightarrow> group_facet it | Kcategory1 \<Rightarrow> category1 it | Kcategory2 \<Rightarrow> category2 it
      | Kcategory3 \<Rightarrow> category3 it | Kcategory4 \<Rightarrow> category4 it | Kgender \<Rightarrow> gender it
      | KcolorCode \<Rightarrow> colorCode it | Kmodel \<Rightarrow> model it | Ksize \<Rightarrow> size_facet it)"

text \<open>
  The inner \<^verbatim>\<open>rulesKeys.forEach\<close>: the flag \<^verbatim>\<open>eligible\<close> starts true and is cleared by a key
  whose rule value is truthy and differs from the item's.
\<close>

definition ruleEligible :: "rule \<Rightarrow> item \<Rightarrow> bool" where
  "ruleEligible rule it =
     foldl (\<lambda>eligible k.
              if truthyStr (rule k) \<and> rule k \<noteq> itemFacet it k then False else eligible)
       True rulesKeys"

definition mcList :: "item \<Rightarrow> jsString list" where
  "mcList it = (case matchedCampaigns it of None \<Rightarrow> [] | Some m \<Rightarrow> m)"

text \<open>The body of \<^verbatim>\<open>rules.forEach\<close>: the state is the item and \<^verbatim>\<open>hasOneProductOnRule\<close>.\<close>

definition checkRule :: "jsString \<Rightarrow> item \<times> bool \<Rightarrow> rule \<Rightarrow> item \<times> bool" where
  "checkRule cd st rule =
     (if ruleEligible rule (fst st)
      then ((fst st)\<lparr>matchedCampaigns := Some (mcList (fst st) @ [cd])\<rparr>, True)
      else st)"

text \<open>The body of \<^verbatim>\<open>sale.items.forEach\<close>: the state is the items done and the flag.\<close>

definition checkItem :: "campaign \<Rightarrow> item list \<times> bool \<Rightarrow> item \<Rightarrow> item list \<times> bool" where
  "checkItem c st it =
     (let it0 = it\<lparr>matchedCampaigns := Some (mcList it), eligible := Some False\<rparr>;
          r = foldl (checkRule (code c)) (it0, snd st) (rules c)
      in (fst st @ [fst r], snd r))"

definition checkItemsThatFollowRules :: "campaign \<Rightarrow> sale \<Rightarrow> bool \<times> sale" where
  "checkItemsThatFollowRules c s =
     (let r = foldl (checkItem c) ([], False) (items s) in (snd r, s\<lparr>items := fst r\<rparr>))"

text \<open>
  JavaScript \<^verbatim>\<open>+\<close> and \<^verbatim>\<open><\<close> on numbers that may be \<^verbatim>\<open>undefined\<close> or \<^verbatim>\<open>NaN\<close> (both \<open>None\<close>):
  the sum is \<^verbatim>\<open>NaN\<close> and the comparison is false.
\<close>

definition addNum :: "int option \<Rightarrow> int option \<Rightarrow> int option" where
  "addNum a b = (case (a, b) of (Some x, Some y) \<Rightarrow> Some (x + y) | _ \<Rightarrow> None)"

definition ltNum :: "int option \<Rightarrow> int option \<Rightarrow> bool" where
  "ltNum a b = (case (a, b) of (Some x, Some y) \<Rightarrow> x < y | _ \<Rightarrow> False)"

text \<open>
  The \<^verbatim>\<open>reduce\<close> of \<^verbatim>\<open>_checkMinSaleValueRule\<close> and \<^verbatim>\<open>_checkMaxsalesCartRule\<close>:
  \<^verbatim>\<open>cur.matchedCampaigns.includes(code) ? (prev += f(cur)) : prev\<close>; an item without the list
  raises a TypeError.
\<close>

fun reduceMatched ::
  "(item \<Rightarrow> int option) \<Rightarrow> jsString \<Rightarrow> int option \<Rightarrow> item list \<Rightarrow> error + int option" where
  "reduceMatched f cd prev [] = Inr prev"
| "reduceMatched f cd prev (cur # its) =
     (case matchedCampaigns cur of
        None \<Rightarrow> Inl TypeError
      | Some m \<Rightarrow> reduceMatched f cd (if cd \<in> set m then addNum prev (f cur) else prev) its)"

definition checkMinSaleValueRule :: "campaign \<Rightarrow> sale \<Rightarrow> error + bool" where
  "checkMinSaleValueRule c s =
     (case reduceMatched totalPrice (code c) (Some 0) (items s) of
        Inl e \<Rightarrow> Inl e
      | Inr totalValue \<Rightarrow>
          if truthy (minSaleValue c) \<and> ltNum totalValue (minSaleValue c) then Inr False
          else Inr True)"

definition checkMaxsalesCartRule :: "campaign \<Rightarrow> sale \<Rightarrow> error + bool" where
  "checkMaxsalesCartRule c s =
     (case reduceMatched (\<lambda>cur. Some (quantity cur)) (code c) (Some 0) (items s) of
        Inl e \<Rightarrow> Inl e
      | Inr totalItems \<Rightarrow>
          if truthy (maxProductsCart c) \<and> ltNum (maxProductsCart c) totalItems then Inr False
          else Inr True)"

text \<open>The pattern of \<^verbatim>\<open>cpf.replace\<close> matches every code unit that is not one of the ten digits.\<close>

definition isDigit :: "16 word \<Rightarrow> bool" where
  "isDigit c = (c \<in> set (str ''0123456789''))"

text \<open>
  \<^verbatim>\<open>_checkCpfParticipationLimit\<close>: the count of the documents of the customer (the digits of
  the identifier) that used the campaign is compared with the limit.
\<close>

definition checkCpfParticipationLimit :: "jsString \<Rightarrow> int \<Rightarrow> jsString \<Rightarrow> doc list \<Rightarrow> bool" where
  "checkCpfParticipationLimit campaignCode limit cpf0 store =
     (let cpf1 = filter isDigit cpf0;
          participations =
            int (length (filter (\<lambda>d. cpf d = cpf1 \<and> usedCampaign d = Some campaignCode) store))
      in if participations \<ge> limit then False else True)"

definition invalid :: "string \<Rightarrow> verdict" where
  "invalid r = \<lparr>isValid = False, reason = Some r\<rparr>"

definition valid :: verdict where
  "valid = \<lparr>isValid = True, reason = None\<rparr>"

definition num :: "int option \<Rightarrow> int" where
  "num v = (case v of None \<Rightarrow> 0 | Some n \<Rightarrow> n)"

text \<open>
  \<^verbatim>\<open>_checkSaleCampaign\<close>. The sale is returned as the checks leave it: the item check
  writes on the items, and a match appends the code to the sale's own list.
\<close>

definition checkSaleCampaign ::
  "campaign \<Rightarrow> sale \<Rightarrow> jsString \<Rightarrow> doc list \<Rightarrow> error + verdict \<times> sale" where
  "checkSaleCampaign c s cpf0 store =
     (if \<not> checkSalesChannelRule c s then Inr (invalid ''FAIL_SALES_CHANNEL_RULE'', s)
      else if \<not> checkSubsidiariesChannelRule c s then
        Inr (invalid ''FAIL_SALES_SUBSIDIARIES_RULE'', s)
      else if \<not> checkPaymentMethodRule c s then Inr (invalid ''FAIL_PAYMENT_METHOD_RULE'', s)
      else
        let r = checkItemsThatFollowRules c s; s1 = snd r in
        if \<not> fst r then Inr (invalid ''FAIL_ITEMS_RULE'', s1)
        else
          (case (if truthy (maxProductsCart c) then checkMaxsalesCartRule c s1 else Inr True) of
             Inl e \<Rightarrow> Inl e
           | Inr okCart \<Rightarrow>
               if \<not> okCart then Inr (invalid ''FAIL_MAX_SALES_CART_RULE'', s1)
               else
                 (case (if truthy (minSaleValue c) then checkMinSaleValueRule c s1
                        else Inr True) of
                    Inl e \<Rightarrow> Inl e
                  | Inr okValue \<Rightarrow>
                      if \<not> okValue then Inr (invalid ''FAIL_MIN_VALUE_RULE'', s1)
                      else if truthy (cpfParticipationLimit c) \<and>
                              \<not> checkCpfParticipationLimit (code c)
                                  (num (cpfParticipationLimit c)) cpf0 store
                      then Inr (invalid ''FAIL_CPF_PARTICIPATION_LIMIT_RULE'', s1)
                      else
                        Inr (valid,
                             s1\<lparr>sale_matchedCampaigns :=
                                  Some (case sale_matchedCampaigns s1 of
                                          None \<Rightarrow> [code c]
                                        | Some m \<Rightarrow> m @ [code c])\<rparr>))))"



text \<open>The number of rules of a campaign an item satisfies.\<close>

definition satisfiedRules :: "campaign \<Rightarrow> item \<Rightarrow> nat" where
  "satisfiedRules c it = length (filter (\<lambda>rule. ruleEligible rule it) (rules c))"

subsection \<open>JavaScript numbers: division and multiplication in binary64\<close>

text \<open>
  \<^verbatim>\<open>percentCashback / 100\<close> and its product with the unit price are the two operations of
  the service whose result need not be an integer, so their rounding is modelled: a finite
  double is the rational it denotes, and an operation returns the exact result rounded to
  the nearest double, ties to even (53 significant bits, exponents down to the subnormal
  quantum \<open>2^-1074\<close>; overflow to infinity is out of the model's range).
\<close>

definition pow2 :: "int \<Rightarrow> rat" where
  "pow2 k = (if 0 \<le> k then 2 ^ nat k else 1 / 2 ^ nat (- k))"

definition roundHalfEven :: "rat \<Rightarrow> int" where
  "roundHalfEven x =
     (let f = \<lfloor>x\<rfloor>; r = x - of_int f in
      if r < 1 / 2 then f else if 1 / 2 < r then f + 1 else if even f then f else f + 1)"

text \<open>For \<open>0 < x\<close>, the exponent \<open>e\<close> with \<open>2^e \<le> x < 2^(e+1)\<close>.\<close>

definition ilog2 :: "rat \<Rightarrow> int" where
  "ilog2 x =
     (let k = bitlen (fst (quotient_of x)) - bitlen (snd (quotient_of x))
      in if pow2 k \<le> x then k else k - 1)"

definition binary64 :: "rat \<Rightarrow> rat" where
  "binary64 x =
     (if x = 0 then 0
      else let a = \<bar>x\<bar>; e = max (ilog2 a) (- 1022); q = pow2 (e - 52)
           in sgn x * of_int (roundHalfEven (a / q)) * q)"

definition jsMul :: "rat \<Rightarrow> rat \<Rightarrow> rat" where
  "jsMul a b = binary64 (a * b)"

definition jsDiv :: "rat \<Rightarrow> rat \<Rightarrow> rat" where
  "jsDiv a b = binary64 (a / b)"

subsection \<open>Cashback Calculator: \<^verbatim>\<open>_processSale\<close>\<close>

text \<open>
  The date library and the server's time zone are not part of the sources. The three date
  computations of \<^verbatim>\<open>_processSale\<close> are parameters: the verification instant moved to the
  start of its local day, the end of the local day of an instant, and \<^verbatim>\<open>_addDays\<close>.
\<close>

record calendar =
  startOfLocalDay :: "int \<Rightarrow> int"
  endOfLocalDay :: "int \<Rightarrow> int"
  addDays :: "int \<Rightarrow> int option \<Rightarrow> int"

text \<open>\<^verbatim>\<open>_.floor(item.unitPrice * (campaign.percentCashback / 100))\<close>.\<close>

definition percentOf :: "int \<Rightarrow> int \<Rightarrow> int" where
  "percentOf price pct = \<lfloor>jsMul (of_int price) (jsDiv (of_int pct) 100)\<rfloor>"

text \<open>
  The \<^verbatim>\<open>forEach\<close> of the percentage mode, with its accumulator \<^verbatim>\<open>total\<close> (here \<open>tot\<close>);
  \<^verbatim>\<open>matchedCampaigns.includes\<close> on an item without the list raises a TypeError.
\<close>

fun cashbackItems :: "jsString \<Rightarrow> int \<Rightarrow> int \<Rightarrow> item list \<Rightarrow> error + item list \<times> int" where
  "cashbackItems cd pct tot [] = Inr ([], tot)"
| "cashbackItems cd pct tot (it # its) =
     (case matchedCampaigns it of
        None \<Rightarrow> Inl TypeError
      | Some m \<Rightarrow>
          if cd \<in> set m then
            (let u = percentOf (unitPrice it) pct;
                 t = u * quantity it;
                 it' = it\<lparr>eligible := Some True, unitCashback := Some u, totalCashback := Some t\<rparr>
             in case cashbackItems cd pct (tot + t) its of
                  Inl e \<Rightarrow> Inl e
                | Inr r \<Rightarrow> Inr (it' # fst r, snd r))
          else
            (let it' = it\<lparr>eligible := Some False, totalCashback := None, unitCashback := None\<rparr>
             in case cashbackItems cd pct tot its of
                  Inl e \<Rightarrow> Inl e
                | Inr r \<Rightarrow> Inr (it' # fst r, snd r)))"

definition clearCashback :: "item \<Rightarrow> item" where
  "clearCashback it = it\<lparr>totalCashback := None, unitCashback := None\<rparr>"

definition processSale :: "calendar \<Rightarrow> campaign \<Rightarrow> sale \<Rightarrow> error + sale" where
  "processSale cal c s =
     (let verificationDate = startOfLocalDay cal (verification s);
          credit =
            (if sale_salesChannel s = str ''PDV'' \<and> truthy (daysToCreditPdv c)
             then addDays cal verificationDate (daysToCreditPdv c)
             else addDays cal verificationDate (daysToCreditEcom c));
          s1 = s\<lparr>usedCampaign := Some (code c), creditDate := Some credit,
                 expirateDate := Some (endOfLocalDay cal (addDays cal credit (daysToRescue c)))\<rparr>
      in case (if truthy (percentCashback c) then
                 (case cashbackItems (code c) (num (percentCashback c)) 0 (items s1) of
                    Inl e \<Rightarrow> Inl e
                  | Inr r \<Rightarrow> Inr (s1\<lparr>items := fst r, sale_totalCashback := Some (snd r)\<rparr>, snd r))
               else Inr (s1\<lparr>sale_totalCashback := valueCashback c\<rparr>, 0)) of
           Inl e \<Rightarrow> Inl e
         | Inr (s2, tot) \<Rightarrow>
             if truthy (cashbackLimit c) \<and> num (cashbackLimit c) < tot then
               Inr (s2\<lparr>sale_totalCashback := cashbackLimit c,
                       items := map clearCashback (items s2)\<rparr>)
             else Inr s2)"

subsection \<open>Campaign Selector and \<^verbatim>\<open>_calculeCashback\<close>\<close>

text \<open>
  \<^verbatim>\<open>_.sortBy(sales, ['totalCashback']).pop()\<close>. lodash sorts ascending and stably, and puts
  \<^verbatim>\<open>undefined\<close> after every number: the key orders the totals that way. \<^verbatim>\<open>pop\<close> returns the
  last element, \<^verbatim>\<open>undefined\<close> on an empty array.
\<close>

definition sortKey :: "sale \<Rightarrow> nat \<times> int" where
  "sortKey s = (case sale_totalCashback s of Some v \<Rightarrow> (0, v) | None \<Rightarrow> (1, 0))"

definition sortBy :: "sale list \<Rightarrow> sale list" where
  "sortBy sales = sort_key sortKey sales"

definition findSaleWithBetterCampaign :: "sale list \<Rightarrow> sale option" where
  "findSaleWithBetterCampaign sales =
     (case sortBy sales of [] \<Rightarrow> None | y # ys \<Rightarrow> Some (last (y # ys)))"

text \<open>
  \<^verbatim>\<open>_markEligibleItemsBasedOnUsedCampaign\<close>: \<^verbatim>\<open>item.matchedCampaigns.includes(usedCampaign)\<close>
  for each item.
\<close>

fun markItems :: "jsString option \<Rightarrow> item list \<Rightarrow> error + item list" where
  "markItems uc [] = Inr []"
| "markItems uc (it # its) =
     (case matchedCampaigns it of
        None \<Rightarrow> Inl TypeError
      | Some m \<Rightarrow>
          (case markItems uc its of
             Inl e \<Rightarrow> Inl e
           | Inr its' \<Rightarrow>
               Inr (it\<lparr>eligible := Some (case uc of None \<Rightarrow> False | Some u \<Rightarrow> u \<in> set m)\<rparr>
                    # its')))"

definition markEligibleItemsBasedOnUsedCampaign :: "sale \<Rightarrow> error + sale" where
  "markEligibleItemsBasedOnUsedCampaign s =
     (case markItems (usedCampaign s) (items s) of
        Inl e \<Rightarrow> Inl e
      | Inr its \<Rightarrow> Inr (s\<lparr>items := its\<rparr>))"

text \<open>
  The \<^verbatim>\<open>for await\<close> of \<^verbatim>\<open>_calculeCashback\<close>: every campaign is checked against the same
  sale object, which carries the marks of the campaigns before it. The result is the sale,
  the valid campaigns and the rejections \<^verbatim>\<open>{isValid, reason, campaign}\<close>.
\<close>

fun checkCampaigns ::
  "campaign list \<Rightarrow> sale \<Rightarrow> jsString \<Rightarrow> doc list \<Rightarrow>
   error + sale \<times> campaign list \<times> (verdict \<times> jsString) list" where
  "checkCampaigns [] s cid store = Inr (s, [], [])"
| "checkCampaigns (c # cs) s cid store =
     (case checkSaleCampaign c s cid store of
        Inl e \<Rightarrow> Inl e
      | Inr (v, s1) \<Rightarrow>
          (case checkCampaigns cs s1 cid store of
             Inl e \<Rightarrow> Inl e
           | Inr (s2, validCampaigns, invalidCampaigns) \<Rightarrow>
               if isValid v then Inr (s2, c # validCampaigns, invalidCampaigns)
               else Inr (s2, validCampaigns, (v, code c) # invalidCampaigns)))"

text \<open>\<^verbatim>\<open>validCampaigns.map(c => this._processSale(c, _.cloneDeepWith(sale)))\<close>.\<close>

fun processAll :: "calendar \<Rightarrow> campaign list \<Rightarrow> sale \<Rightarrow> error + sale list" where
  "processAll cal [] s = Inr []"
| "processAll cal (c # cs) s =
     (case processSale cal c s of
        Inl e \<Rightarrow> Inl e
      | Inr r \<Rightarrow> (case processAll cal cs s of Inl e \<Rightarrow> Inl e | Inr rs \<Rightarrow> Inr (r # rs)))"

definition calculeCashback ::
  "calendar \<Rightarrow> campaign list option \<Rightarrow> sale \<Rightarrow> jsString \<Rightarrow> doc list \<Rightarrow>
   error + sale list \<times> (verdict \<times> jsString) list" where
  "calculeCashback cal campaigns s cid store =
     (case campaigns of
        None \<Rightarrow> Inl (Error ''SALE_NOT_MATCH_ANY_CAMPAIGN'')
      | Some cs \<Rightarrow>
          (case processItems (items s) of
             Inl e \<Rightarrow> Inl e
           | Inr its \<Rightarrow>
               (case checkCampaigns cs (s\<lparr>items := its\<rparr>) cid store of
                  Inl e \<Rightarrow> Inl e
                | Inr (s1, validCampaigns, invalidCampaigns) \<Rightarrow>
                    if length validCampaigns < 1 then Inl (Error ''SALE_NOT_MATCH_ANY_CAMPAIGN'')
                    else
                      (case processAll cal validCampaigns s1 of
                         Inl e \<Rightarrow> Inl e
                       | Inr result \<Rightarrow> Inr (result, invalidCampaigns)))))"

subsection \<open>Ledger Allocator and Balance Aggregator\<close>

text \<open>
  \<^verbatim>\<open>_createOrAddCashbackUseHistory\<close> and \<^verbatim>\<open>_createCashbackFontHistory\<close>; \<^verbatim>\<open>new Date()\<close> is the
  parameter \<open>now\<close>. A document without the array is modelled with the empty list, for which
  the first gives the same result.
\<close>

definition createOrAddCashbackUseHistory ::
  "int \<Rightarrow> jsString option \<Rightarrow> ledgerEntry list \<Rightarrow> nat \<Rightarrow> int \<Rightarrow> ledgerEntry list" where
  "createOrAddCashbackUseHistory value key useHistory sid now =
     useHistory @ [\<lparr>usedValue = value, entry_invoiceKey = key, saleId = sid, date = now\<rparr>]"

definition createCashbackFontHistory :: "int \<Rightarrow> jsString option \<Rightarrow> nat \<Rightarrow> int \<Rightarrow> ledgerEntry" where
  "createCashbackFontHistory value key sid now =
     \<lparr>usedValue = value, entry_invoiceKey = key, saleId = sid, date = now\<rparr>"

text \<open>
  The query of \<^verbatim>\<open>_useCashback\<close>: the customer's AVAILABLE documents with a positive
  balance, sorted with \<^verbatim>\<open>{ expirateDate: -1 }\<close>, that is descending (a missing date sorts
  lowest, so last). Among equal dates the store's order is kept.
\<close>

fun insertDesc :: "doc \<Rightarrow> doc list \<Rightarrow> doc list" where
  "insertDesc d [] = [d]"
| "insertDesc d (x # xs) =
     (if expirateDate d < expirateDate x then x # insertDesc d xs else d # x # xs)"

definition sortDesc :: "doc list \<Rightarrow> doc list" where
  "sortDesc ds = foldr insertDesc ds []"

definition findAvailable :: "jsString \<Rightarrow> doc list \<Rightarrow> doc list" where
  "findAvailable cpf0 store =
     sortDesc (filter (\<lambda>d. cpf d = cpf0 \<and> status d = AVAILABLE \<and>
                           (case availableCashback d of None \<Rightarrow> False | Some v \<Rightarrow> 0 < v)) store)"

text \<open>
  The \<^verbatim>\<open>while (usedValueAux)\<close> loop of \<^verbatim>\<open>_useCashback\<close> over \<^verbatim>\<open>salesWithCashback[i]\<close>, from the
  current index on. It returns \<^verbatim>\<open>history\<close> and \<^verbatim>\<open>usedSales\<close>. Reading past the end gives
  \<^verbatim>\<open>undefined\<close>, whose \<^verbatim>\<open>availableCashback\<close> raises a TypeError. A balance that is
  \<^verbatim>\<open>undefined\<close> fails both comparisons, and the document is pushed as it is.
\<close>

fun useLoop ::
  "int \<Rightarrow> jsString option \<Rightarrow> nat \<Rightarrow> int \<Rightarrow> doc list \<Rightarrow> error + ledgerEntry list \<times> doc list" where
  "useLoop usedValueAux key sid now [] = (if usedValueAux = 0 then Inr ([], []) else Inl TypeError)"
| "useLoop usedValueAux key sid now (sale # rest) =
     (if usedValueAux = 0 then Inr ([], [])
      else
        (case availableCashback sale of
           None \<Rightarrow>
             (case useLoop usedValueAux key sid now rest of
                Inl e \<Rightarrow> Inl e
              | Inr r \<Rightarrow> Inr (fst r, sale # snd r))
         | Some av \<Rightarrow>
             if av \<ge> usedValueAux then
               (case useLoop 0 key sid now rest of
                  Inl e \<Rightarrow> Inl e
                | Inr r \<Rightarrow>
                    Inr (createCashbackFontHistory usedValueAux (invoiceKey sale) (docId sale) now
                           # fst r,
                         sale\<lparr>cashbackUseHistory :=
                                createOrAddCashbackUseHistory usedValueAux key
                                  (cashbackUseHistory sale) sid now,
                              availableCashback := Some (av - usedValueAux)\<rparr> # snd r))
             else if usedValueAux > av then
               (case useLoop (usedValueAux - av) key sid now rest of
                  Inl e \<Rightarrow> Inl e
                | Inr r \<Rightarrow>
                    Inr (createCashbackFontHistory av (invoiceKey sale) (docId sale) now # fst r,
                         sale\<lparr>cashbackUseHistory :=
                                createOrAddCashbackUseHistory av key (cashbackUseHistory sale)
                                  sid now,
                              availableCashback := Some 0\<rparr> # snd r))
             else
               (case useLoop usedValueAux key sid now rest of
                  Inl e \<Rightarrow> Inl e
                | Inr r \<Rightarrow> Inr (fst r, sale # snd r))))"

text \<open>\<^verbatim>\<open>updateOne({ _id }, ...)\<close>: the first document with the identifier is rewritten.\<close>

fun updateOne :: "nat \<Rightarrow> (doc \<Rightarrow> doc) \<Rightarrow> doc list \<Rightarrow> doc list" where
  "updateOne i f [] = []"
| "updateOne i f (d # ds) = (if docId d = i then f d # ds else d # updateOne i f ds)"

definition persist :: "doc list \<Rightarrow> doc \<Rightarrow> doc list" where
  "persist store usedSale =
     updateOne (docId usedSale)
       (\<lambda>d. d\<lparr>availableCashback := availableCashback usedSale,
               cashbackUseHistory := cashbackUseHistory usedSale\<rparr>) store"

text \<open>\<^verbatim>\<open>_useCashback\<close>: the history and the collection after the updates are written.\<close>

definition useCashback ::
  "int \<Rightarrow> jsString \<Rightarrow> jsString option \<Rightarrow> nat \<Rightarrow> int \<Rightarrow> doc list \<Rightarrow>
   error + ledgerEntry list \<times> doc list" where
  "useCashback value cpf0 key sid now store =
     (case useLoop value key sid now (findAvailable cpf0 store) of
        Inl e \<Rightarrow> Inl e
      | Inr r \<Rightarrow> Inr (fst r, foldl persist store (snd r)))"

text \<open>
  \<^verbatim>\<open>_getBalance\<close>: the aggregation groups the customer's AVAILABLE documents and sums
  \<^verbatim>\<open>availableCashback\<close> (a missing value adds nothing); without such a document there is no
  group and the result is \<^verbatim>\<open>undefined\<close>. The identifier may itself be \<^verbatim>\<open>undefined\<close> (the
  driver sends it as null), which no document's \<^verbatim>\<open>cpf\<close> equals.
\<close>

definition getBalance :: "jsString option \<Rightarrow> doc list \<Rightarrow> int option" where
  "getBalance cpf0 store =
     (let ms = filter (\<lambda>d. Some (cpf d) = cpf0 \<and> status d = AVAILABLE) store
      in if ms = [] then None else Some (\<Sum>d\<leftarrow>ms. num (availableCashback d)))"

subsection \<open>\<^verbatim>\<open>_generateCashback\<close>\<close>

text \<open>
  The argument \<^verbatim>\<open>processSale\<close>: a received-sale document with its \<^verbatim>\<open>cpf\<close> and the sale under
  \<^verbatim>\<open>data\<close> (\<^verbatim>\<open>create\<close> passes an object with \<^verbatim>\<open>data\<close> only). The collaborators are parameters:
  the calendar, the campaign source by status and date, the ban list and the clock. The
  user directory, the e-mails and the analytics events do not touch the collection and are
  left out, as is the received-sales collection.
\<close>

record request =
  request_cpf :: "jsString option"
  data :: sale

record env =
  envCalendar :: calendar
  getCampaigns :: "jsString \<Rightarrow> int \<Rightarrow> campaign list"
  isUserInBannedList :: "jsString \<Rightarrow> bool"
  clock :: int

text \<open>The identifier the store gives a new document.\<close>

definition freshId :: "doc list \<Rightarrow> nat" where
  "freshId store = Suc (foldr max (map docId store) 0)"

text \<open>
  A new document: the sale's fields, then the identifier, \<^verbatim>\<open>cpf\<close>, status, invoice key,
  no balance, no use history, no history, and the summaries of the candidates.
\<close>

definition newDoc :: "sale \<Rightarrow> nat \<Rightarrow> status \<Rightarrow> jsString option \<Rightarrow> summary list \<Rightarrow> doc" where
  "newDoc s i st key others =
     sale.extend s (doc.fields i (customerId s) st key None [] None others)"

text \<open>\<^verbatim>\<open>_createUsedCashbackSale\<close>, then \<^verbatim>\<open>_saleModel.create\<close>: the fields it copies.\<close>

definition createUsedCashbackSale :: "sale \<Rightarrow> nat \<Rightarrow> doc" where
  "createUsedCashbackSale s i =
     newDoc (s\<lparr>sale_matchedCampaigns := None, usedCampaign := None, sale_totalCashback := None,
               creditDate := None, expirateDate := None\<rparr>)
       i USED (case invoice s of None \<Rightarrow> None | Some k \<Rightarrow> k) []"

definition summaryOf :: "sale \<Rightarrow> summary" where
  "summaryOf s = (usedCampaign s, creditDate s, expirateDate s, sale_totalCashback s)"

text \<open>
  \<^verbatim>\<open>_generateCashback\<close>: the result and the collection it leaves. An error is returned with
  the collection as it is when the error is raised.
\<close>

definition generateCashback :: "env \<Rightarrow> request \<Rightarrow> doc list \<Rightarrow> (error + doc option) \<times> doc list" where
  "generateCashback ev rq store =
     (let balance = num (getBalance (request_cpf rq) store); d = data rq in
      if usedCashback d then
        if balance < usedCashbackValue d then (Inl (Error ''INSUFFICIENT_FUNDS''), store)
        else
          (let sale = createUsedCashbackSale d (freshId store); store1 = store @ [sale] in
           case useCashback (usedCashbackValue d) (customerId d)
                  (case invoice d of None \<Rightarrow> None | Some k \<Rightarrow> k) (docId sale) (clock ev) store1 of
             Inl e \<Rightarrow> (Inl e, store1)
           | Inr r \<Rightarrow>
               (let store2 = updateOne (docId sale) (\<lambda>x. x\<lparr>history := Some (fst r)\<rparr>) (snd r)
                in (Inr (find (\<lambda>x. docId x = docId sale) store2), store2)))
      else
        (case invoice d of
           None \<Rightarrow> (Inl TypeError, store)
         | Some key \<Rightarrow>
             if list_ex (\<lambda>x. invoiceKey x = key) store then
               (Inl (Error ''CONFLICT_DUPLICATE_INVOICE_KEY_ERROR''), store)
             else if isUserInBannedList ev (customerId d) then
               (Inl (Error ''USER_FOUND_BANNEDLIST''), store)
             else
               (let campaigns = getCampaigns ev (str ''ACTIVE'') (verification d) @
                                getCampaigns ev (str ''EXPIRED'') (verification d) in
                case calculeCashback (envCalendar ev) (Some campaigns) d (customerId d) store of
                  Inl e \<Rightarrow> (Inl e, store)
                | Inr (saleWithCashback, invalidCampaigns) \<Rightarrow>
                    (case findSaleWithBetterCampaign saleWithCashback of
                       None \<Rightarrow> (Inl TypeError, store)
                     | Some best \<Rightarrow>
                         (case markEligibleItemsBasedOnUsedCampaign best of
                            Inl e \<Rightarrow> (Inl e, store)
                          | Inr saleWithBestCashback \<Rightarrow>
                              if list_ex (\<lambda>x. invoiceKey x = key) store then
                                (Inl (Error ''CONFLICT_DUPLICATE_INVOICE_KEY_ERROR''), store)
                              else if \<not> truthyStr key then
                                (Inl (Error ''CONFLICT_DUPLICATE_INVOICE_KEY_ERROR''), store)
                              else
                                (let newSale =
                                       newDoc saleWithBestCashback (freshId store) PENDING key
                                         (map summaryOf saleWithCashback)
                                 in (Inr (Some newSale), store @ [newSale])))))))"

subsection \<open>Sale Lifecycle Manager: \<^verbatim>\<open>cancel\<close>\<close>

text \<open>
  The aggregation pipeline \<^verbatim>\<open>cancel\<close> runs for one entry \<open>h\<close> of the history: the document
  \<open>h.saleId\<close>, unless EXPIRED, gets \<open>h.usedValue\<close> added to its balance and loses the use
  entries of the cancelled sale. The pipelines run one after the other here. The calls
  to the analytics service that follow the writes are left out.
\<close>

definition restoreDoc :: "nat \<Rightarrow> ledgerEntry \<Rightarrow> doc \<Rightarrow> doc" where
  "restoreDoc cid h d =
     (if docId d = saleId h \<and> status d \<noteq> EXPIRED then
        d\<lparr>availableCashback := Some (num (availableCashback d) + usedValue h),
          cashbackUseHistory := filter (\<lambda>u. saleId u \<noteq> cid) (cashbackUseHistory d)\<rparr>
      else d)"

definition restoreEntry :: "nat \<Rightarrow> doc list \<Rightarrow> ledgerEntry \<Rightarrow> doc list" where
  "restoreEntry cid store h = map (restoreDoc cid h) store"

definition cancel :: "nat \<Rightarrow> doc list \<Rightarrow> (error + unit) \<times> doc list" where
  "cancel cid store =
     (case find (\<lambda>d. docId d = cid) store of
        None \<Rightarrow> (Inl (Error ''SALE_NOT_FOUND''), store)
      | Some sale \<Rightarrow>
          if status sale = CANCELED then (Inr (), store)
          else if status sale = AVAILABLE then (Inl (Error ''CANT_CANCEL_AVAILABLE_SALE''), store)
          else if status sale = EXPIRED then (Inl (Error ''CANT_CANCEL_EXPIRED_SALE''), store)
          else if usedCashback sale then
            (case history sale of
               None \<Rightarrow> (Inl TypeError, store)
             | Some hs \<Rightarrow>
                 (Inr (),
                  updateOne cid (\<lambda>d. d\<lparr>status := CANCELED\<rparr>)
                    (foldl (restoreEntry cid) store hs)))
          else
            (Inr (),
             updateOne cid
               (\<lambda>d. d\<lparr>status := CANCELED, creditDate := None, expirateDate := None,
                       availableCashback := None\<rparr>) store))"

text \<open>What the item check leaves of an item: the code once per satisfied rule.\<close>

definition matchItem :: "campaign \<Rightarrow> item \<Rightarrow> item" where
  "matchItem c it =
     it\<lparr>matchedCampaigns := Some (mcList it @ replicate (satisfiedRules c it) (code c)),
        eligible := Some False\<rparr>"

subsection \<open>Example data\<close>

text \<open>
  A campaign with two rules (the second has an empty-string facet), a percentage, a
  minimum sale value, a cart cap and a participation limit; and a sale of two items, the
  first of which satisfies both rules.
\<close>

definition exRule1 :: rule where
  "exRule1 = (\<lambda>k. None)(Kmodel := Some (str ''A1''))"

definition exRule2 :: rule where
  "exRule2 = (\<lambda>k. None)(KcolorCode := Some (str ''RED''), Ksize := Some [])"

definition exCampaign :: campaign where
  "exCampaign =
     \<lparr>code = str ''C1'', rules = [exRule1, exRule2],
      percentCashback = Some 29, valueCashback = None, cashbackLimit = None,
      minSaleValue = Some 500, maxProductsCart = Some 5,
      salesChannel = [str ''PDV'', str ''ECOM''], subsidiariesList = None,
      paymentMethod = [\<lparr>pm_type = str ''CREDIT_CARD'', pm_flags = Some [str ''VISA'']\<rparr>],
      daysToCreditPdv = Some 1, daysToCreditEcom = Some 7, daysToRescue = Some 30,
      cpfParticipationLimit = Some 1\<rparr>"

definition exItem1 :: item where
  "exItem1 =
     (rawItem (str ''A1.RED.M'') 100 2)\<lparr>model := Some (str ''A1''), colorCode := Some (str ''RED''),
        size_facet := Some (str ''M''), totalPrice := Some 200\<rparr>"

definition exItem2 :: item where
  "exItem2 =
     (rawItem (str ''B2.BLUE.S'') 50 1)\<lparr>model := Some (str ''B2''), colorCode := Some (str ''BLUE''),
        size_facet := Some (str ''S''), totalPrice := Some 50\<rparr>"

definition exSale :: sale where
  "exSale =
     \<lparr>items = [exItem1, exItem2], sale_salesChannel = str ''PDV'', origin = str ''S1'',
      sale_paymentMethod = [\<lparr>sp_type = str ''CREDIT_CARD'', sp_flag = Some (str ''VISA'')\<rparr>],
      verification = 0, customerId = str ''123.456'', invoice = Some (Some (str ''NF1'')),
      usedCashback = False, usedCashbackValue = 0, sale_matchedCampaigns = None,
      usedCampaign = None, sale_totalCashback = None, creditDate = None,
      expirateDate = None\<rparr>"

text \<open>What the percentage mode leaves of an item.\<close>

definition rateItem :: "jsString \<Rightarrow> int \<Rightarrow> item \<Rightarrow> item" where
  "rateItem cd pct it =
     (if cd \<in> set (mcList it) then
        it\<lparr>eligible := Some True, unitCashback := Some (percentOf (unitPrice it) pct),
           totalCashback := Some (percentOf (unitPrice it) pct * quantity it)\<rparr>
      else it\<lparr>eligible := Some False, totalCashback := None, unitCashback := None\<rparr>)"

text \<open>The total the percentage mode computes: the item totals of the matched items.\<close>

definition computedTotal :: "campaign \<Rightarrow> item list \<Rightarrow> int" where
  "computedTotal c its =
     (\<Sum>it\<leftarrow>its. if code c \<in> set (mcList it)
                 then percentOf (unitPrice it) (num (percentCashback c)) * quantity it else 0)"

text \<open>The total of a result, when there is one.\<close>

definition resultTotal :: "error + sale \<Rightarrow> int option" where
  "resultTotal r = (case r of Inl e \<Rightarrow> None | Inr s \<Rightarrow> sale_totalCashback s)"

definition resultItems :: "error + sale \<Rightarrow> item list" where
  "resultItems r = (case r of Inl e \<Rightarrow> [] | Inr s \<Rightarrow> items s)"

text \<open>A calendar in UTC, in milliseconds.\<close>

definition exCalendar :: calendar where
  "exCalendar =
     \<lparr>startOfLocalDay = (\<lambda>t. t - t mod 86400000),
      endOfLocalDay = (\<lambda>t. t - t mod 86400000 + 86399999),
      addDays = (\<lambda>t d. t + 86400000 * num d)\<rparr>"

text \<open>The example sale after the item check of the example campaign.\<close>

definition exSaleMatched :: sale where
  "exSaleMatched = snd (checkItemsThatFollowRules exCampaign exSale)"

text \<open>A fixed-value campaign whose value is above its limit.\<close>

definition exFixedCampaign :: campaign where
  "exFixedCampaign =
     exCampaign\<lparr>percentCashback := None, valueCashback := Some 1000, cashbackLimit := Some 500\<rparr>"

text \<open>
  What cancelling the redemption \<open>cid\<close> with history \<open>hs\<close> makes of a document, in the
  specification's words: a source that is not EXPIRED gets back the \<open>usedValue\<close> of the
  entries that name it and loses the use entries of the cancelled sale; the cancelled sale
  becomes CANCELED; nothing else changes.
\<close>

definition cancelledDoc :: "nat \<Rightarrow> ledgerEntry list \<Rightarrow> doc \<Rightarrow> doc" where
  "cancelledDoc cid hs d =
     (let d1 =
            (if status d \<noteq> EXPIRED \<and> list_ex (\<lambda>h. saleId h = docId d) hs then
               d\<lparr>availableCashback :=
                    Some (num (availableCashback d) +
                          (\<Sum>h\<leftarrow>filter (\<lambda>h. saleId h = docId d) hs. usedValue h)),
                 cashbackUseHistory := filter (\<lambda>u. saleId u \<noteq> cid) (cashbackUseHistory d)\<rparr>
             else d)
      in if docId d = cid then d1\<lparr>status := CANCELED\<rparr> else d1)"

text \<open>
  An earned record of the example customer, and a collection with two of them: the first
  expires at 100 with 300 available, the second at 200 with 700 available.
\<close>

definition exDoc :: "nat \<Rightarrow> status \<Rightarrow> int option \<Rightarrow> int option \<Rightarrow> doc" where
  "exDoc i st av ex =
     (newDoc exSale i st (Some (str ''NF'')) [])\<lparr>availableCashback := av, expirateDate := ex\<rparr>"

definition exStore :: "doc list" where
  "exStore = [exDoc 1 AVAILABLE (Some 300) (Some 100), exDoc 2 AVAILABLE (Some 700) (Some 200)]"

text \<open>
  The collaborators of the examples: four active campaigns apply to the example sale, with
  totals 56, 1200, 1200 and 900.
\<close>

definition exEnv :: env where
  "exEnv =
     \<lparr>envCalendar = exCalendar,
      getCampaigns =
        (\<lambda>st t. if st = str ''ACTIVE'' then
                  [exCampaign\<lparr>minSaleValue := Some 200\<rparr>,
                   exCampaign\<lparr>code := str ''C2'', percentCashback := None,
                                valueCashback := Some 1200, minSaleValue := None\<rparr>,
                   exCampaign\<lparr>code := str ''C3'', percentCashback := None,
                                valueCashback := Some 1200, minSaleValue := None\<rparr>,
                   exCampaign\<lparr>code := str ''C4'', percentCashback := None,
                                valueCashback := Some 900, minSaleValue := None\<rparr>]
                else []),
      isUserInBannedList = (\<lambda>c. False), clock = 50\<rparr>"

text \<open>A redemption request of 500 by the example customer, and the collection after it.\<close>

definition exRedemption :: request where
  "exRedemption =
     \<lparr>request_cpf = Some (str ''123.456''),
      data = exSale\<lparr>usedCashback := True, usedCashbackValue := 500, invoice := Some (Some (str ''NF9''))\<rparr>\<rparr>"

definition exStoreRedeemed :: "doc list" where
  "exStoreRedeemed = snd (generateCashback exEnv exRedemption exStore)"

text \<open>
  The customer's aggregate available balance, in the specification's words: the sum of
  \<^verbatim>\<open>availableCashback\<close> over the customer's AVAILABLE records.
\<close>

definition balanceOf :: "jsString \<Rightarrow> doc list \<Rightarrow> int" where
  "balanceOf c store =
     (\<Sum>d\<leftarrow>filter (\<lambda>d. cpf d = c \<and> status d = AVAILABLE) store. num (availableCashback d))"

text \<open>
  The greedy allocation of an amount over a list of balances, in the specification's
  words: a balance that covers the remaining amount is debited the remaining amount and
  the allocation stops; otherwise the whole balance is debited and the allocation goes on.
\<close>

fun allocate :: "int \<Rightarrow> int list \<Rightarrow> int list" where
  "allocate v [] = []"
| "allocate v (b # bs) =
     (if v = 0 then [] else if v \<le> b then [v] else b # allocate (v - b) bs)"







text \<open>A redemption request of 1001, more than the 1000 the example customer has.\<close>

definition exOverdraft :: request where
  "exOverdraft =
     \<lparr>request_cpf = Some (str ''123.456''),
      data = exSale\<lparr>usedCashback := True, usedCashbackValue := 1001, invoice := Some (Some (str ''NF9''))\<rparr>\<rparr>"

section \<open>Properties\<close>

subsection \<open>String literals\<close>

lemma unat_of_char: "unat (of_char c :: 16 word) = of_char c"
proof -
  have "(of_char c :: nat) < 65536"
    by (rule less_trans [OF nat_of_char_less_256]) simp
  then have "(of_char c :: nat) mod 2 ^ 16 = of_char c" by simp
  moreover have "unat (of_nat (of_char c) :: 16 word) = (of_char c :: nat) mod 2 ^ 16"
    by (simp add: unat_of_nat del: of_nat_of_char)
  ultimately show ?thesis by (simp only: of_nat_of_char)
qed

lemma of_char_word_eq_iff: "(of_char a :: 16 word) = of_char b \<longleftrightarrow> a = b"
proof
  assume "(of_char a :: 16 word) = of_char b"
  then have "unat (of_char a :: 16 word) = unat (of_char b :: 16 word)" by (rule arg_cong)
  then have "(of_char a :: nat) = of_char b" by (simp only: unat_of_char)
  then show "a = b" by (simp only: of_char_eq_iff)
next
  assume "a = b"
  then show "(of_char a :: 16 word) = of_char b" by (rule arg_cong)
qed

lemma str_eq_iff [simp]: "str a = str b \<longleftrightarrow> a = b"
  unfolding str_def by (rule inj_map_eq_map) (simp add: inj_def of_char_word_eq_iff)

lemma str_empty [simp]: "str s = [] \<longleftrightarrow> s = []"
  by (simp add: str_def)

subsection \<open>Item Normalizer\<close>

lemma processItem_short:
  "length (segments it) < 3 \<Longrightarrow> processItem it = Inl TypeError"
  by (auto simp: processItem_def segments_def split: list.splits)

lemma processItem_long:
  "3 \<le> length (segments it) \<Longrightarrow>
   processItem it =
     Inr (it\<lparr>model := Some (trim (segments it ! 0)), colorCode := Some (trim (segments it ! 1)),
            size_facet := Some (trim (segments it ! 2)),
            totalPrice := Some (unitPrice it * quantity it)\<rparr>)"
  by (auto simp: processItem_def segments_def split: list.splits)

lemma processItems_fail:
  "\<exists>it \<in> set its. length (segments it) < 3 \<Longrightarrow> processItems its = Inl TypeError"
proof (induction its)
  case Nil
  then show ?case by simp
next
  case (Cons it its)
  show ?case
  proof (cases "length (segments it) < 3")
    case True
    then show ?thesis by (simp add: processItem_short)
  next
    case False
    with Cons.prems have "\<exists>it \<in> set its. length (segments it) < 3" by auto
    with Cons.IH have "processItems its = Inl TypeError" by simp
    with False show ?thesis by (simp add: processItem_long)
  qed
qed

lemma processItems_succeed:
  "\<forall>it \<in> set its. 3 \<le> length (segments it) \<Longrightarrow>
   processItems its =
     Inr (map (\<lambda>it. it\<lparr>model := Some (trim (segments it ! 0)),
                          colorCode := Some (trim (segments it ! 1)),
                          size_facet := Some (trim (segments it ! 2)),
                          totalPrice := Some (unitPrice it * quantity it)\<rparr>) its)"
  by (induction its) (simp_all add: processItem_long)

text \<open>
  C9 (as the code has it). A part number with fewer than three segments makes
  \<^verbatim>\<open>_processItems\<close> fail, with the TypeError of \<^verbatim>\<open>undefined.trim()\<close>; when every
  item has at least three segments, each item gets model, colorCode and size set to the
  trimmed first three segments and totalPrice set to unitPrice times quantity.
\<close>

theorem processItems_part_number:
  "((\<exists>it \<in> set its. length (segments it) < 3) \<longrightarrow> processItems its = Inl TypeError) \<and>
   ((\<forall>it \<in> set its. 3 \<le> length (segments it)) \<longrightarrow>
      processItems its =
        Inr (map (\<lambda>it. it\<lparr>model := Some (trim (segments it ! 0)),
                             colorCode := Some (trim (segments it ! 1)),
                             size_facet := Some (trim (segments it ! 2)),
                             totalPrice := Some (unitPrice it * quantity it)\<rparr>) its))"
  using processItems_fail [of its] processItems_succeed [of its] by blast

theorem processItems_part_number_witness:
  "length (segments (rawItem (str ''A1.RED'') 100 2)) < 3 \<and>
   processItems [rawItem (str ''A1.RED'') 100 2] = Inl TypeError \<and>
   3 \<le> length (segments (rawItem exPartNumber 100 2)) \<and>
   processItems [rawItem exPartNumber 100 2] =
     Inr [(rawItem exPartNumber 100 2)\<lparr>model := Some (str ''A1''), colorCode := Some (str ''RED''),
            size_facet := Some (str ''M''), totalPrice := Some 200\<rparr>]"
proof -
  have segs: "segments (rawItem (str ''A1.RED'') 100 2) = [str ''A1'', str ''RED'']"
    "segments (rawItem exPartNumber 100 2) =
       [str '' A1'' @ [0x00A0], 0x2028 # str ''RED '' @ [0xFEFF], str ''M'', str ''x'']"
    by code_simp+
  have trims: "trim (str '' A1'' @ [0x00A0]) = str ''A1''"
    "trim (0x2028 # str ''RED '' @ [0xFEFF]) = str ''RED''"
    "trim (str ''M'') = str ''M''"
    by code_simp+
  have vals: "unitPrice (rawItem exPartNumber 100 2) * quantity (rawItem exPartNumber 100 2) = 200"
    by (simp add: rawItem_def)
  show ?thesis
    using processItems_part_number [of "[rawItem (str ''A1.RED'') 100 2]"]
      processItems_part_number [of "[rawItem exPartNumber 100 2]"]
    by (simp add: segs trims vals)
qed

text \<open>
  C9 as stated fails: no code path raises \<^verbatim>\<open>MALFORMED_PART_NUMBER\<close>; a two-segment
  part number ends in a TypeError.
\<close>

theorem processItems_malformed_counterexample:
  "processItems [rawItem (str ''A1.RED'') 100 2] \<noteq> Inl (Error ''MALFORMED_PART_NUMBER'') \<and>
   processItems [rawItem (str ''A1.RED'') 100 2] = Inl TypeError"
  by code_simp

subsection \<open>Campaign Rule Matcher\<close>

lemma foldl_flag:
  "foldl (\<lambda>e k. if P k then False else e) b ks = (b \<and> list_all (\<lambda>k. \<not> P k) ks)"
  by (induction ks arbitrary: b) auto

lemma ruleEligible_iff:
  "ruleEligible rule it \<longleftrightarrow>
     list_all (\<lambda>k. \<not> (truthyStr (rule k) \<and> rule k \<noteq> itemFacet it k)) rulesKeys"
  unfolding ruleEligible_def by (simp add: foldl_flag)

lemma itemFacet_matched [simp]:
  "itemFacet (it\<lparr>matchedCampaigns := m\<rparr>) k = itemFacet it k"
  by (cases k) (simp_all add: itemFacet_def)

lemma itemFacet_eligible [simp]:
  "itemFacet (it\<lparr>eligible := e\<rparr>) k = itemFacet it k"
  by (cases k) (simp_all add: itemFacet_def)

lemma ruleEligible_matched [simp]:
  "ruleEligible rule (it\<lparr>matchedCampaigns := m\<rparr>) = ruleEligible rule it"
  by (simp add: ruleEligible_def)

lemma ruleEligible_eligible [simp]:
  "ruleEligible rule (it\<lparr>eligible := e\<rparr>) = ruleEligible rule it"
  by (simp add: ruleEligible_def)

lemma foldl_checkRule:
  "foldl (checkRule cd) (it\<lparr>matchedCampaigns := Some m\<rparr>, has) rs =
     (it\<lparr>matchedCampaigns := Some (m @ replicate (length (filter (\<lambda>r. ruleEligible r it) rs)) cd)\<rparr>,
      has \<or> list_ex (\<lambda>r. ruleEligible r it) rs)"
proof (induction rs arbitrary: m has)
  case Nil
  then show ?case by simp
next
  case (Cons r rs)
  show ?case
  proof (cases "ruleEligible r it")
    case True
    then have "checkRule cd (it\<lparr>matchedCampaigns := Some m\<rparr>, has) r =
        (it\<lparr>matchedCampaigns := Some (m @ [cd])\<rparr>, True)"
      by (simp add: checkRule_def mcList_def)
    with True show ?thesis
      using Cons.IH [of "m @ [cd]" True] by (simp add: replicate_app_Cons_same)
  next
    case False
    then have "checkRule cd (it\<lparr>matchedCampaigns := Some m\<rparr>, has) r =
        (it\<lparr>matchedCampaigns := Some m\<rparr>, has)"
      by (simp add: checkRule_def)
    with False show ?thesis using Cons.IH [of m has] by simp
  qed
qed

lemma item_update_comm:
  "(it::item)\<lparr>matchedCampaigns := a, eligible := b\<rparr> = it\<lparr>eligible := b, matchedCampaigns := a\<rparr>"
  by simp

lemma checkItem_eq:
  "checkItem c (acc, has) it =
     (acc @ [matchItem c it], has \<or> list_ex (\<lambda>r. ruleEligible r it) (rules c))"
proof -
  have "foldl (checkRule (code c)) (it\<lparr>eligible := Some False\<rparr>\<lparr>matchedCampaigns := Some (mcList it)\<rparr>, has) (rules c) =
     ((it\<lparr>eligible := Some False\<rparr>)\<lparr>matchedCampaigns := Some (mcList it @ replicate (length (filter (\<lambda>r. ruleEligible r (it\<lparr>eligible := Some False\<rparr>)) (rules c))) (code c))\<rparr>,
      has \<or> list_ex (\<lambda>r. ruleEligible r (it\<lparr>eligible := Some False\<rparr>)) (rules c))"
    by (rule foldl_checkRule)
  then show ?thesis
    unfolding checkItem_def matchItem_def satisfiedRules_def Let_def item_update_comm
    by simp
qed

lemma foldl_checkItem:
  "foldl (checkItem c) (acc, has) its =
     (acc @ map (matchItem c) its,
      has \<or> list_ex (\<lambda>it. list_ex (\<lambda>r. ruleEligible r it) (rules c)) its)"
  by (induction its arbitrary: acc has) (simp_all add: checkItem_eq)

lemma checkItemsThatFollowRules_eq:
  "checkItemsThatFollowRules c s =
     (list_ex (\<lambda>it. list_ex (\<lambda>r. ruleEligible r it) (rules c)) (items s),
      s\<lparr>items := map (matchItem c) (items s)\<rparr>)"
  by (simp add: checkItemsThatFollowRules_def foldl_checkItem Let_def)


lemma reduceMatched_sum:
  "list_all (\<lambda>it. matchedCampaigns it \<noteq> None \<and> f it \<noteq> None) its \<Longrightarrow>
   reduceMatched f cd (Some p) its =
     Inr (Some (p + (\<Sum>it\<leftarrow>its. if cd \<in> set (mcList it) then num (f it) else 0)))"
  by (induction its arbitrary: p) (auto simp: addNum_def mcList_def num_def)





lemma rulesKeys_all: "k \<in> set rulesKeys"
  by (cases k) (simp_all add: rulesKeys_def)

lemma ruleEligible_facets:
  "ruleEligible rule it \<longleftrightarrow> (\<forall>k. truthyStr (rule k) \<longrightarrow> rule k = itemFacet it k)"
  using rulesKeys_all by (auto simp: ruleEligible_iff list_all_iff)

lemma mcList_matchItem:
  "mcList (matchItem c it) = mcList it @ replicate (satisfiedRules c it) (code c)"
  by (simp add: matchItem_def mcList_def)

lemma code_in_matchItem:
  "code c \<in> set (mcList (matchItem c it)) \<longleftrightarrow>
     code c \<in> set (mcList it) \<or> 0 < satisfiedRules c it"
  by (auto simp: mcList_matchItem)

lemma sum_after_check:
  assumes "list_all (\<lambda>it. f it \<noteq> None) its"
    and "\<And>it. f (matchItem c it) = f it"
  shows "reduceMatched f (code c) (Some 0) (map (matchItem c) its) =
     Inr (Some (\<Sum>it\<leftarrow>its. if code c \<in> set (mcList it) \<or> 0 < satisfiedRules c it
                               then num (f it) else 0))"
proof -
  have "list_all (\<lambda>it. matchedCampaigns it \<noteq> None \<and> f it \<noteq> None) (map (matchItem c) its)"
    using assms by (simp add: list_all_iff) (simp add: matchItem_def)
  from reduceMatched_sum [OF this, of "code c" 0]
  show ?thesis
    by (simp add: assms(2) code_in_matchItem comp_def cong: if_cong)
qed

lemmas ex_defs = exCampaign_def exSale_def exItem1_def exItem2_def rawItem_def exRule1_def exRule2_def

lemma ex_satisfied:
  "satisfiedRules exCampaign exItem1 = 2 \<and> satisfiedRules exCampaign exItem2 = 0"
  by (simp add: ex_defs satisfiedRules_def ruleEligible_iff rulesKeys_def itemFacet_def truthyStr_def)


subsection \<open>Cashback Calculator\<close>

lemma cashbackItems_eq:
  "list_all (\<lambda>it. matchedCampaigns it \<noteq> None) its \<Longrightarrow>
   cashbackItems cd pct tot its =
     Inr (map (rateItem cd pct) its,
          tot + (\<Sum>it\<leftarrow>its. if cd \<in> set (mcList it)
                          then percentOf (unitPrice it) pct * quantity it else 0))"
  by (induction its arbitrary: tot) (auto simp: rateItem_def mcList_def Let_def)

lemma cashback_after_check:
  "cashbackItems (code c) pct 0 (map (matchItem c) its) =
     Inr (map (rateItem (code c) pct) (map (matchItem c) its),
          (\<Sum>it\<leftarrow>its. if code c \<in> set (mcList it) \<or> 0 < satisfiedRules c it
                     then percentOf (unitPrice it) pct * quantity it else 0))"
proof -
  have "list_all (\<lambda>it. matchedCampaigns it \<noteq> None) (map (matchItem c) its)"
    by (simp add: list_all_iff matchItem_def)
  from cashbackItems_eq [OF this, of "code c" pct 0]
  have "cashbackItems (code c) pct 0 (map (matchItem c) its) =
     Inr (map (rateItem (code c) pct) (map (matchItem c) its),
          (\<Sum>it\<leftarrow>its. if code c \<in> set (mcList (matchItem c it))
                     then percentOf (unitPrice (matchItem c it)) pct * quantity (matchItem c it)
                     else 0))"
    by (simp add: comp_def)
  moreover have "\<And>it. unitPrice (matchItem c it) = unitPrice it \<and>
      quantity (matchItem c it) = quantity it"
    by (simp add: matchItem_def)
  ultimately show ?thesis by (simp add: code_in_matchItem cong: if_cong)
qed

text \<open>
  C10. The item check appends the campaign code to an item's \<^verbatim>\<open>matchedCampaigns\<close> once
  per rule the item satisfies, so the list holds the code as many times as rules are
  satisfied. The cart and value sums and the percentage mode of the calculator test
  membership, so each item's quantity, total price (once the items are normalised) and
  cashback is added once, whatever the multiplicity. A rule is satisfied exactly when
  every facet with a truthy value equals the item's: a facet that is absent or the empty
  string constrains nothing.
\<close>

theorem matchedCampaigns_duplicates:
  "items (snd (checkItemsThatFollowRules c s)) =
     map (\<lambda>it. it\<lparr>matchedCampaigns :=
                       Some (mcList it @ replicate (satisfiedRules c it) (code c)),
                     eligible := Some False\<rparr>) (items s) \<and>
   reduceMatched (\<lambda>cur. Some (quantity cur)) (code c) (Some 0)
       (items (snd (checkItemsThatFollowRules c s))) =
     Inr (Some (\<Sum>it\<leftarrow>items s. if code c \<in> set (mcList it) \<or> 0 < satisfiedRules c it
                                    then quantity it else 0)) \<and>
   (list_all (\<lambda>it. totalPrice it \<noteq> None) (items s) \<longrightarrow>
    reduceMatched totalPrice (code c) (Some 0) (items (snd (checkItemsThatFollowRules c s))) =
      Inr (Some (\<Sum>it\<leftarrow>items s. if code c \<in> set (mcList it) \<or> 0 < satisfiedRules c it
                                     then num (totalPrice it) else 0))) \<and>
   map_sum id snd
       (cashbackItems (code c) pct 0 (items (snd (checkItemsThatFollowRules c s)))) =
     Inr (\<Sum>it\<leftarrow>items s. if code c \<in> set (mcList it) \<or> 0 < satisfiedRules c it
                            then percentOf (unitPrice it) pct * quantity it else 0) \<and>
   (ruleEligible rule it \<longleftrightarrow> (\<forall>k. truthyStr (rule k) \<longrightarrow> rule k = itemFacet it k))"
proof -
  have items: "items (snd (checkItemsThatFollowRules c s)) = map (matchItem c) (items s)"
    by (simp add: checkItemsThatFollowRules_eq)
  have q: "reduceMatched (\<lambda>cur. Some (quantity cur)) (code c) (Some 0) (map (matchItem c) (items s)) =
     Inr (Some (\<Sum>it\<leftarrow>items s. if code c \<in> set (mcList it) \<or> 0 < satisfiedRules c it
                                    then num (Some (quantity it)) else 0))"
    by (rule sum_after_check) (simp_all add: list_all_iff matchItem_def)
  have p: "reduceMatched totalPrice (code c) (Some 0) (map (matchItem c) (items s)) =
     Inr (Some (\<Sum>it\<leftarrow>items s. if code c \<in> set (mcList it) \<or> 0 < satisfiedRules c it
                                    then num (totalPrice it) else 0))"
    if "list_all (\<lambda>it. totalPrice it \<noteq> None) (items s)"
    using that by (rule sum_after_check) (simp add: matchItem_def)
  show ?thesis
    unfolding items using q p ruleEligible_facets [of rule it]
    by (simp add: matchItem_def [abs_def] num_def cashback_after_check [unfolded matchItem_def [abs_def]]
        cong: if_cong)
qed

theorem matchedCampaigns_duplicates_witness:
  "list_all (\<lambda>it. totalPrice it \<noteq> None) (items exSale) \<and>
   satisfiedRules exCampaign exItem1 = 2 \<and>
   map matchedCampaigns (items (snd (checkItemsThatFollowRules exCampaign exSale))) =
     [Some [str ''C1'', str ''C1''], Some []] \<and>
   reduceMatched (\<lambda>cur. Some (quantity cur)) (str ''C1'') (Some 0)
     (items (snd (checkItemsThatFollowRules exCampaign exSale))) = Inr (Some 2) \<and>
   reduceMatched totalPrice (str ''C1'') (Some 0)
     (items (snd (checkItemsThatFollowRules exCampaign exSale))) = Inr (Some 200) \<and>
   map_sum id snd
     (cashbackItems (str ''C1'') 29 0 (items (snd (checkItemsThatFollowRules exCampaign exSale)))) =
     Inr 56 \<and>
   exRule2 Ksize = Some [] \<and>
   ruleEligible exRule2 exItem1"
proof -
  have tp: "list_all (\<lambda>it. totalPrice it \<noteq> None) (items exSale)"
    by (simp add: ex_defs)
  have cd: "code exCampaign = str ''C1''" by (simp add: exCampaign_def)
  have its: "items exSale = [exItem1, exItem2]" by (simp add: exSale_def)
  have mc: "mcList exItem1 = [] \<and> mcList exItem2 = []"
    by (simp add: ex_defs mcList_def)
  have vals: "quantity exItem1 = 2 \<and> totalPrice exItem1 = Some 200 \<and> unitPrice exItem1 = 100"
    by (simp add: ex_defs)
  have pc: "percentOf 100 29 = 28" by code_simp
  have r2: "exRule2 Ksize = Some [] \<and>
     (\<forall>k. truthyStr (exRule2 k) \<longrightarrow> exRule2 k = itemFacet exItem1 k)"
    by (simp add: ex_defs truthyStr_def itemFacet_def)
  show ?thesis
    using matchedCampaigns_duplicates [of exCampaign exSale 29 exRule2 exItem1]
      tp r2 ex_satisfied
    by (simp add: cd its mc vals pc num_def numeral_2_eq_2 addNum_def)
qed

lemma processSale_percent:
  assumes "list_all (\<lambda>it. matchedCampaigns it \<noteq> None) (items s)"
    and "truthy (percentCashback c)"
  shows "processSale cal c s =
     (let credit =
            (if sale_salesChannel s = str ''PDV'' \<and> truthy (daysToCreditPdv c)
             then addDays cal (startOfLocalDay cal (verification s)) (daysToCreditPdv c)
             else addDays cal (startOfLocalDay cal (verification s)) (daysToCreditEcom c));
          s1 = s\<lparr>usedCampaign := Some (code c), creditDate := Some credit,
                 expirateDate := Some (endOfLocalDay cal (addDays cal credit (daysToRescue c)))\<rparr>
      in if truthy (cashbackLimit c) \<and> num (cashbackLimit c) < computedTotal c (items s) then
           Inr (s1\<lparr>items := map clearCashback (map (rateItem (code c) (num (percentCashback c))) (items s)),
                   sale_totalCashback := cashbackLimit c\<rparr>)
         else
           Inr (s1\<lparr>items := map (rateItem (code c) (num (percentCashback c))) (items s),
                   sale_totalCashback := Some (computedTotal c (items s))\<rparr>))"
  using assms
  by (simp add: processSale_def Let_def cashbackItems_eq computedTotal_def)

lemma clear_rate:
  "unitCashback (clearCashback it) = None \<and> totalCashback (clearCashback it) = None"
  by (simp add: clearCashback_def)

text \<open>
  The cap of \<^verbatim>\<open>_processSale\<close> in general. In percentage mode with a truthy
  \<^verbatim>\<open>cashbackLimit\<close>, on a sale whose items went through the item check: when the total
  computed from the items exceeds the limit, the sale's total is the limit and every item
  is left without unitCashback and totalCashback; when it does not, the sale's total is the
  computed total and the items are as the percentage mode left them. A limit that is
  missing or 0 is no limit. In fixed mode the test reads the accumulator of the percentage
  mode, which is still 0: with a limit that is not negative nothing is ever capped, the
  total is \<^verbatim>\<open>valueCashback\<close> and the items are untouched.
\<close>

lemma processSale_percent_cap:
  assumes "list_all (\<lambda>it. matchedCampaigns it \<noteq> None) (items s)"
    and "truthy (percentCashback c)" and "truthy (cashbackLimit c)"
  shows "(num (cashbackLimit c) < computedTotal c (items s) \<longrightarrow>
            resultTotal (processSale cal c s) = cashbackLimit c \<and>
            cashbackLimit c = Some (num (cashbackLimit c)) \<and>
            length (resultItems (processSale cal c s)) = length (items s) \<and>
            list_all (\<lambda>it. unitCashback it = None \<and> totalCashback it = None)
              (resultItems (processSale cal c s))) \<and>
         (computedTotal c (items s) \<le> num (cashbackLimit c) \<longrightarrow>
            resultTotal (processSale cal c s) = Some (computedTotal c (items s)) \<and>
            resultItems (processSale cal c s) =
              map (rateItem (code c) (num (percentCashback c))) (items s))"
  using assms(3)
  by (auto simp: processSale_percent [OF assms(1,2)] Let_def resultTotal_def resultItems_def
      list_all_iff clear_rate truthy_def num_def split: option.splits)

lemma processSale_percent_unlimited:
  assumes "list_all (\<lambda>it. matchedCampaigns it \<noteq> None) (items s)"
    and "truthy (percentCashback c)" and "\<not> truthy (cashbackLimit c)"
  shows "resultTotal (processSale cal c s) = Some (computedTotal c (items s)) \<and>
         resultItems (processSale cal c s) =
           map (rateItem (code c) (num (percentCashback c))) (items s)"
  using assms(3)
  by (simp add: processSale_percent [OF assms(1,2)] Let_def resultTotal_def resultItems_def)

lemma processSale_fixed_uncapped:
  assumes "\<not> truthy (percentCashback c)" and "0 \<le> num (cashbackLimit c)"
  shows "resultTotal (processSale cal c s) = valueCashback c \<and>
         resultItems (processSale cal c s) = items s"
  using assms
  by (simp add: processSale_def Let_def resultTotal_def resultItems_def)

text \<open>
  C4 at a failing input: a fixed-value campaign with \<^verbatim>\<open>valueCashback\<close> 1000 and
  \<^verbatim>\<open>cashbackLimit\<close> 500. The cap test \<^verbatim>\<open>campaign.cashbackLimit < total\<close> reads the
  accumulator of the percentage mode, which is 0 in fixed mode, so the sale's total stays
  1000, above the limit. The same test caps in percentage mode: with limit 50 the computed
  total 56 becomes 50 and the items lose their cashback fields.
\<close>

theorem processSale_cap_fixed_mode:
  "percentCashback exFixedCampaign = None \<and>
   valueCashback exFixedCampaign = Some 1000 \<and>
   cashbackLimit exFixedCampaign = Some 500 \<and>
   resultTotal (processSale exCalendar exFixedCampaign exSaleMatched) = Some 1000 \<and>
   resultItems (processSale exCalendar exFixedCampaign exSaleMatched) = items exSaleMatched \<and>
   computedTotal (exCampaign\<lparr>cashbackLimit := Some 50\<rparr>) (items exSaleMatched) = 56 \<and>
   resultTotal (processSale exCalendar (exCampaign\<lparr>cashbackLimit := Some 50\<rparr>) exSaleMatched) =
     Some 50 \<and>
   map (\<lambda>it. (unitCashback it, totalCashback it))
     (resultItems (processSale exCalendar (exCampaign\<lparr>cashbackLimit := Some 50\<rparr>) exSaleMatched)) =
     [(None, None), (None, None)]"
  by code_simp

text \<open>
  C3 at a failing input: percentage 29, unit price 100, quantity 2, the campaign code in
  the item's \<^verbatim>\<open>matchedCampaigns\<close>. \<^verbatim>\<open>100 * (29 / 100)\<close> is 28.999999999999996 in
  binary64, so the unit cashback is 28 and the sale's total 56, where the exact
  \<open>floor(100 * 29 / 100)\<close> is 29.
\<close>

theorem processSale_percent_rounding:
  "map unitCashback (resultItems (processSale exCalendar exCampaign exSaleMatched)) = [Some 28, None] \<and>
   resultTotal (processSale exCalendar exCampaign exSaleMatched) = Some 56 \<and>
   percentCashback exCampaign = Some 29 \<and>
   map unitPrice (items exSaleMatched) = [100, 50] \<and>
   map quantity (items exSaleMatched) = [2, 1] \<and>
   map matchedCampaigns (items exSaleMatched) = [Some [str ''C1'', str ''C1''], Some []] \<and>
   (100 * 29) div 100 = (29 :: int)"
  by code_simp

subsection \<open>Sale Lifecycle Manager\<close>

lemma find_updateOne:
  "(\<And>d. docId (f d) = docId d) \<Longrightarrow>
   find (\<lambda>d. docId d = i) (updateOne i f ds) = map_option f (find (\<lambda>d. docId d = i) ds)"
  by (induction ds) auto

lemma find_map_docId:
  "(\<And>d. docId (g d) = docId d) \<Longrightarrow>
   find (\<lambda>d. docId d = i) (map g ds) = map_option g (find (\<lambda>d. docId d = i) ds)"
  by (induction ds) auto

lemma restoreDoc_keeps [simp]:
  "docId (restoreDoc cid h d) = docId d" "status (restoreDoc cid h d) = status d"
  by (simp_all add: restoreDoc_def)

lemma foldl_restoreEntry:
  "foldl (restoreEntry cid) store hs = map (\<lambda>d. foldl (\<lambda>x h. restoreDoc cid h x) d hs) store"
  by (induction hs arbitrary: store) (simp_all add: restoreEntry_def comp_def)

lemma foldl_restoreDoc_keeps [simp]:
  "docId (foldl (\<lambda>x h. restoreDoc cid h x) d hs) = docId d"
  "status (foldl (\<lambda>x h. restoreDoc cid h x) d hs) = status d"
  by (induction hs arbitrary: d) simp_all

lemma cancel_again:
  assumes "fst (cancel cid store) = Inr ()"
  shows "cancel cid (snd (cancel cid store)) = (Inr (), snd (cancel cid store))"
proof (cases "find (\<lambda>d. docId d = cid) store")
  case None
  with assms show ?thesis by (simp add: cancel_def)
next
  case (Some sale)
  show ?thesis
  proof (cases "status sale = CANCELED")
    case True
    with Some show ?thesis by (simp add: cancel_def)
  next
    case False
    note notc = this
    show ?thesis
    proof (cases "usedCashback sale")
      case True
      with assms Some notc obtain hs where hs: "history sale = Some hs"
        by (auto simp: cancel_def split: if_splits option.splits)
      with assms Some notc True
      have st: "snd (cancel cid store) =
          updateOne cid (\<lambda>d. d\<lparr>status := CANCELED\<rparr>) (foldl (restoreEntry cid) store hs)"
        by (auto simp: cancel_def split: if_splits)
      have "find (\<lambda>d. docId d = cid) (snd (cancel cid store)) =
          Some ((foldl (\<lambda>x h. restoreDoc cid h x) sale hs)\<lparr>status := CANCELED\<rparr>)"
        unfolding st by (simp add: find_updateOne foldl_restoreEntry find_map_docId Some)
      then show ?thesis by (simp add: cancel_def)
    next
      case False
      with assms Some notc
      have st: "snd (cancel cid store) =
          updateOne cid (\<lambda>d. d\<lparr>status := CANCELED, creditDate := None, expirateDate := None,
                       availableCashback := None\<rparr>) store"
        by (auto simp: cancel_def split: if_splits)
      have "find (\<lambda>d. docId d = cid) (snd (cancel cid store)) =
          Some (sale\<lparr>status := CANCELED, creditDate := None, expirateDate := None,
                       availableCashback := None\<rparr>)"
        unfolding st by (simp add: find_updateOne Some)
      then show ?thesis by (simp add: cancel_def)
    qed
  qed
qed

text \<open>
  C7 (as the code has it). \<^verbatim>\<open>cancel\<close> of an identifier no sale has fails with
  \<^verbatim>\<open>SALE_NOT_FOUND\<close>; of an AVAILABLE sale with \<^verbatim>\<open>CANT_CANCEL_AVAILABLE_SALE\<close>; of an EXPIRED
  sale with \<^verbatim>\<open>CANT_CANCEL_EXPIRED_SALE\<close>; of a CANCELED sale it succeeds and changes nothing.
  Whenever it fails the collection is unchanged, and after any successful call a second
  call succeeds and changes nothing.
\<close>

theorem cancel_guards:
  "(find (\<lambda>d. docId d = cid) store = None \<longrightarrow>
      cancel cid store = (Inl (Error ''SALE_NOT_FOUND''), store)) \<and>
   (\<forall>sale. find (\<lambda>d. docId d = cid) store = Some sale \<longrightarrow>
      (status sale = AVAILABLE \<longrightarrow>
         cancel cid store = (Inl (Error ''CANT_CANCEL_AVAILABLE_SALE''), store)) \<and>
      (status sale = EXPIRED \<longrightarrow>
         cancel cid store = (Inl (Error ''CANT_CANCEL_EXPIRED_SALE''), store)) \<and>
      (status sale = CANCELED \<longrightarrow> cancel cid store = (Inr (), store))) \<and>
   (\<forall>e. fst (cancel cid store) = Inl e \<longrightarrow> snd (cancel cid store) = store) \<and>
   (fst (cancel cid store) = Inr () \<longrightarrow>
      cancel cid (snd (cancel cid store)) = (Inr (), snd (cancel cid store)))"
proof -
  have "\<forall>e. fst (cancel cid store) = Inl e \<longrightarrow> snd (cancel cid store) = store"
    by (auto simp: cancel_def split: option.splits if_splits)
  then show ?thesis
    using cancel_again [of cid store]
    by (auto simp: cancel_def)
qed

theorem cancel_guards_witness:
  "find (\<lambda>d. docId d = 9) exStore = None \<and>
   cancel 9 exStore = (Inl (Error ''SALE_NOT_FOUND''), exStore) \<and>
   cancel 1 exStore = (Inl (Error ''CANT_CANCEL_AVAILABLE_SALE''), exStore) \<and>
   cancel 1 [exDoc 1 EXPIRED (Some 300) (Some 100)] =
     (Inl (Error ''CANT_CANCEL_EXPIRED_SALE''), [exDoc 1 EXPIRED (Some 300) (Some 100)]) \<and>
   cancel 1 [exDoc 1 CANCELED None None] = (Inr (), [exDoc 1 CANCELED None None]) \<and>
   cancel 3 (snd (cancel 3 exStoreRedeemed)) = (Inr (), snd (cancel 3 exStoreRedeemed))"
proof -
  have a: "find (\<lambda>d. docId d = 9) exStore = None" by code_simp
  have b: "find (\<lambda>d. docId d = 1) exStore = Some (exDoc 1 AVAILABLE (Some 300) (Some 100))"
    "status (exDoc 1 AVAILABLE (Some 300) (Some 100)) = AVAILABLE"
    by code_simp+
  have c: "find (\<lambda>d. docId d = 1) [exDoc 1 EXPIRED (Some 300) (Some 100)] =
      Some (exDoc 1 EXPIRED (Some 300) (Some 100))"
    "status (exDoc 1 EXPIRED (Some 300) (Some 100)) = EXPIRED"
    by code_simp+
  have d: "find (\<lambda>d. docId d = 1) [exDoc 1 CANCELED None None] = Some (exDoc 1 CANCELED None None)"
    "status (exDoc 1 CANCELED None None) = CANCELED"
    by code_simp+
  have e: "fst (cancel 3 exStoreRedeemed) = Inr ()" by code_simp
  show ?thesis
    using cancel_guards [of 9 exStore] cancel_guards [of 1 exStore]
      cancel_guards [of 1 "[exDoc 1 EXPIRED (Some 300) (Some 100)]"]
      cancel_guards [of 1 "[exDoc 1 CANCELED None None]"]
      cancel_guards [of 3 exStoreRedeemed] a b c d e
    by simp
qed

text \<open>
  C7 as stated fails on the error of the first case: the message the code raises for an
  unknown identifier is \<^verbatim>\<open>SALE_NOT_FOUND\<close>, not \<^verbatim>\<open>NOT_FOUND\<close>.
\<close>

theorem cancel_not_found_counterexample:
  "find (\<lambda>d. docId d = 9) exStore = None \<and>
   fst (cancel 9 exStore) \<noteq> Inl (Error ''NOT_FOUND'') \<and>
   fst (cancel 9 exStore) = Inl (Error ''SALE_NOT_FOUND'')"
  by code_simp

lemma updateOne_absent:
  "i \<notin> docId ` set ds \<Longrightarrow> updateOne i f ds = ds"
  by (induction ds) auto

lemma updateOne_map:
  assumes "distinct (map docId ds)" and "\<And>d. docId (g d) = docId d"
  shows "updateOne i f (map g ds) = map (\<lambda>d. if docId d = i then f (g d) else g d) ds"
  using assms(1)
proof (induction ds)
  case Nil
  then show ?case by simp
next
  case (Cons d ds)
  show ?case
  proof (cases "docId d = i")
    case True
    with Cons.prems have "i \<notin> docId ` set ds" by auto
    then have "map (\<lambda>d. if docId d = i then f (g d) else g d) ds = map g ds" by auto
    with True show ?thesis by (simp add: assms(2))
  next
    case False
    with Cons show ?thesis by (simp add: assms(2))
  qed
qed

lemma foldl_restoreDoc_expired:
  "status d = EXPIRED \<Longrightarrow> foldl (\<lambda>x h. restoreDoc cid h x) d hs = d"
  by (induction hs) (simp_all add: restoreDoc_def)

lemma foldl_restoreDoc_live:
  "status d \<noteq> EXPIRED \<Longrightarrow>
   foldl (\<lambda>x h. restoreDoc cid h x) d hs =
     (if list_ex (\<lambda>h. saleId h = docId d) hs then
        d\<lparr>availableCashback :=
             Some (num (availableCashback d) +
                   (\<Sum>h\<leftarrow>filter (\<lambda>h. saleId h = docId d) hs. usedValue h)),
          cashbackUseHistory := filter (\<lambda>u. saleId u \<noteq> cid) (cashbackUseHistory d)\<rparr>
      else d)"
proof (induction hs rule: rev_induct)
  case Nil
  then show ?case by simp
next
  case (snoc h hs)
  then show ?case
    by (auto simp: restoreDoc_def num_def list_ex_iff)
qed

lemma cancelledDoc_eq:
  "cancelledDoc cid hs d =
     (if docId d = cid then (foldl (\<lambda>x h. restoreDoc cid h x) d hs)\<lparr>status := CANCELED\<rparr>
      else foldl (\<lambda>x h. restoreDoc cid h x) d hs)"
  by (cases "status d = EXPIRED")
     (simp_all add: cancelledDoc_def foldl_restoreDoc_expired foldl_restoreDoc_live Let_def)

text \<open>
  C8. Cancelling a redemption sale (\<^verbatim>\<open>usedCashback\<close> true, status USED or PENDING, a
  history \<open>hs\<close>) in a collection with unique identifiers succeeds, and every document
  becomes what \<open>cancelledDoc\<close> says: a source that is not EXPIRED has its
  \<^verbatim>\<open>availableCashback\<close> increased by the \<open>usedValue\<close> of the entries naming it and loses every
  use entry whose \<^verbatim>\<open>saleId\<close> is the cancelled sale; an EXPIRED document is untouched; the
  cancelled sale's status becomes CANCELED.
\<close>

theorem cancel_redemption:
  assumes "find (\<lambda>d. docId d = cid) store = Some sale"
    and "usedCashback sale"
    and "status sale = USED \<or> status sale = PENDING"
    and "history sale = Some hs"
    and "distinct (map docId store)"
  shows "cancel cid store = (Inr (), map (cancelledDoc cid hs) store) \<and>
         (\<forall>d \<in> set store. status d = EXPIRED \<longrightarrow> cancelledDoc cid hs d = d) \<and>
         status (cancelledDoc cid hs sale) = CANCELED"
proof -
  have "cancel cid store =
      (Inr (), updateOne cid (\<lambda>d. d\<lparr>status := CANCELED\<rparr>) (foldl (restoreEntry cid) store hs))"
    using assms(1-4) by (auto simp: cancel_def)
  also have "updateOne cid (\<lambda>d. d\<lparr>status := CANCELED\<rparr>) (foldl (restoreEntry cid) store hs) =
      map (cancelledDoc cid hs) store"
    unfolding foldl_restoreEntry
    by (subst updateOne_map [OF assms(5)]) (simp_all add: cancelledDoc_eq [abs_def])
  finally have main: "cancel cid store = (Inr (), map (cancelledDoc cid hs) store)" .
  have sid: "docId sale = cid"
    using assms(1) by (auto dest: find_Some_iff [THEN iffD1])
  have notexp: "status sale \<noteq> EXPIRED" using assms(3) by auto
  have exp: "\<forall>d \<in> set store. status d = EXPIRED \<longrightarrow> cancelledDoc cid hs d = d"
  proof (intro ballI impI)
    fix d assume d: "d \<in> set store" "status d = EXPIRED"
    have "docId d \<noteq> cid"
    proof
      assume "docId d = cid"
      moreover have "sale \<in> set store"
        using assms(1) by (auto simp: find_Some_iff)
      ultimately have "d = sale"
        using d(1) assms(5) sid by (auto simp: distinct_map inj_on_def)
      with d(2) notexp show False by simp
    qed
    with d(2) show "cancelledDoc cid hs d = d" by (simp add: cancelledDoc_def)
  qed
  show ?thesis using main exp sid by (simp add: cancelledDoc_def Let_def)
qed

theorem cancel_redemption_witness:
  "cancel 3 exStoreRedeemed =
     (Inr (), map (cancelledDoc 3 [createCashbackFontHistory 500 (Some (str ''NF'')) 2 50]) exStoreRedeemed) \<and>
   map availableCashback exStoreRedeemed = [Some 300, Some 200, None] \<and>
   map availableCashback (snd (cancel 3 exStoreRedeemed)) = [Some 300, Some 700, None] \<and>
   map cashbackUseHistory (snd (cancel 3 exStoreRedeemed)) = [[], [], []] \<and>
   map status (snd (cancel 3 exStoreRedeemed)) = [AVAILABLE, AVAILABLE, CANCELED] \<and>
   map availableCashback
     (snd (cancel 3 (updateOne 2 (\<lambda>d. d\<lparr>status := EXPIRED\<rparr>) exStoreRedeemed))) =
     [Some 300, Some 200, None]"
proof -
  let ?hs = "[createCashbackFontHistory 500 (Some (str ''NF'')) 2 50]"
  let ?st2 = "updateOne 2 (\<lambda>d. d\<lparr>status := EXPIRED\<rparr>) exStoreRedeemed"
  have f: "find (\<lambda>d. docId d = 3) exStoreRedeemed = Some (exStoreRedeemed ! 2)"
    and u: "usedCashback (exStoreRedeemed ! 2)"
    and s: "status (exStoreRedeemed ! 2) = USED \<or> status (exStoreRedeemed ! 2) = PENDING"
    and h: "history (exStoreRedeemed ! 2) = Some ?hs"
    and d: "distinct (map docId exStoreRedeemed)"
    by code_simp+
  have f2: "find (\<lambda>d. docId d = 3) ?st2 = Some (?st2 ! 2)"
    and u2: "usedCashback (?st2 ! 2)"
    and s2: "status (?st2 ! 2) = USED \<or> status (?st2 ! 2) = PENDING"
    and h2: "history (?st2 ! 2) = Some ?hs"
    and d2: "distinct (map docId ?st2)"
    by code_simp+
  have vals: "map availableCashback exStoreRedeemed = [Some 300, Some 200, None]"
    "map availableCashback (map (cancelledDoc 3 ?hs) exStoreRedeemed) = [Some 300, Some 700, None]"
    "map cashbackUseHistory (map (cancelledDoc 3 ?hs) exStoreRedeemed) = [[], [], []]"
    "map status (map (cancelledDoc 3 ?hs) exStoreRedeemed) = [AVAILABLE, AVAILABLE, CANCELED]"
    "map availableCashback (map (cancelledDoc 3 ?hs) ?st2) = [Some 300, Some 200, None]"
    by code_simp+
  from cancel_redemption [OF f u s h d] cancel_redemption [OF f2 u2 s2 h2 d2] vals
  show ?thesis by simp
qed

subsection \<open>Campaign Selector\<close>














subsection \<open>Ledger Allocator\<close>

lemma getBalance_balanceOf: "num (getBalance (Some c) store) = balanceOf c store"
  by (simp add: getBalance_def balanceOf_def num_def Let_def)

lemma getBalance_none: "num (getBalance None store) = 0"
  by (simp add: getBalance_def num_def)

text \<open>
  C2. A redemption request for more than the customer's aggregate available balance, the
  sum of \<^verbatim>\<open>availableCashback\<close> over the customer's AVAILABLE records, fails with
  \<^verbatim>\<open>INSUFFICIENT_FUNDS\<close> and leaves the whole collection as it was: the check comes before
  the redemption record is created and before any balance or use history is written. The
  balance is read under the request's \<^verbatim>\<open>cpf\<close>: it is the customer's identifier (the
  received-sale documents), or missing (\<^verbatim>\<open>create\<close>), and then the balance read is 0, which
  is enough when the customer's balance is not negative.
\<close>

theorem generateCashback_insufficient:
  assumes "usedCashback (data rq)"
    and "request_cpf rq = Some (customerId (data rq)) \<or>
         request_cpf rq = None \<and> 0 \<le> balanceOf (customerId (data rq)) store"
    and "balanceOf (customerId (data rq)) store < usedCashbackValue (data rq)"
  shows "generateCashback ev rq store = (Inl (Error ''INSUFFICIENT_FUNDS''), store)"
  using assms
  by (auto simp: generateCashback_def getBalance_balanceOf getBalance_none Let_def)

theorem generateCashback_insufficient_witness:
  "usedCashback (data exOverdraft) \<and>
   request_cpf exOverdraft = Some (customerId (data exOverdraft)) \<and>
   balanceOf (customerId (data exOverdraft)) exStore = 1000 \<and>
   usedCashbackValue (data exOverdraft) = 1001 \<and>
   generateCashback exEnv exOverdraft exStore = (Inl (Error ''INSUFFICIENT_FUNDS''), exStore) \<and>
   generateCashback exEnv (exOverdraft\<lparr>request_cpf := None\<rparr>) exStore =
     (Inl (Error ''INSUFFICIENT_FUNDS''), exStore)"
proof -
  have a: "usedCashback (data exOverdraft)"
    and b: "request_cpf exOverdraft = Some (customerId (data exOverdraft))"
    and c: "balanceOf (customerId (data exOverdraft)) exStore = 1000"
    and d: "usedCashbackValue (data exOverdraft) = 1001"
    by code_simp+
  have e: "balanceOf (customerId (data exOverdraft)) exStore < usedCashbackValue (data exOverdraft)"
    by (simp add: c d)
  have a': "usedCashback (data (exOverdraft\<lparr>request_cpf := None\<rparr>))" using a by simp
  have b': "request_cpf (exOverdraft\<lparr>request_cpf := None\<rparr>) =
        Some (customerId (data (exOverdraft\<lparr>request_cpf := None\<rparr>))) \<or>
      request_cpf (exOverdraft\<lparr>request_cpf := None\<rparr>) = None \<and>
      0 \<le> balanceOf (customerId (data (exOverdraft\<lparr>request_cpf := None\<rparr>))) exStore"
    using c by simp
  have e': "balanceOf (customerId (data (exOverdraft\<lparr>request_cpf := None\<rparr>))) exStore <
      usedCashbackValue (data (exOverdraft\<lparr>request_cpf := None\<rparr>))"
    using e by simp
  from generateCashback_insufficient [OF a disjI1 [OF b] e, of exEnv]
    generateCashback_insufficient [OF a' b' e', of exEnv] a b c d
  show ?thesis by simp
qed

text \<open>
  The order and the loop of \<^verbatim>\<open>_useCashback\<close> in general: the query returns the records
  latest expiration first, each with a positive balance; on such a list whose balances
  cover a non-negative amount the loop succeeds, it debits the records greedily in the
  order of the list (\<open>allocate\<close>), its history adds up to the amount, and it names the
  records it used, a prefix of the list.
\<close>

lemma set_insertDesc: "set (insertDesc d xs) = insert d (set xs)"
  by (induction xs) auto

lemma sorted_insertDesc:
  "sorted_wrt (\<lambda>a b. expirateDate b \<le> expirateDate a) xs \<Longrightarrow>
   sorted_wrt (\<lambda>a b. expirateDate b \<le> expirateDate a) (insertDesc d xs)"
  by (induction xs) (auto simp: set_insertDesc)

lemma sortDesc_sorted: "sorted_wrt (\<lambda>a b. expirateDate b \<le> expirateDate a) (sortDesc ds)"
  unfolding sortDesc_def by (induction ds) (simp_all add: sorted_insertDesc)

lemma set_sortDesc: "set (sortDesc ds) = set ds"
  unfolding sortDesc_def by (induction ds) (simp_all add: set_insertDesc)

lemma findAvailable_latest_first:
  "sorted_wrt (\<lambda>a b. expirateDate b \<le> expirateDate a) (findAvailable c store)"
  by (simp add: findAvailable_def sortDesc_sorted)

lemma findAvailable_positive:
  "list_all (\<lambda>d. \<exists>v. availableCashback d = Some v \<and> 0 < v) (findAvailable c store)"
  by (auto simp: findAvailable_def list_all_iff set_sortDesc split: option.splits)

lemma useLoop_zero [simp]: "useLoop 0 key sid now recs = Inr ([], [])"
  by (cases recs) simp_all

lemma useLoop_greedy:
  "list_all (\<lambda>d. \<exists>v. availableCashback d = Some v \<and> 0 < v) recs \<Longrightarrow>
   0 \<le> V \<Longrightarrow> V \<le> (\<Sum>d\<leftarrow>recs. num (availableCashback d)) \<Longrightarrow>
   \<exists>hist used. useLoop V key sid now recs = Inr (hist, used) \<and>
     map usedValue hist = allocate V (map (\<lambda>d. num (availableCashback d)) recs) \<and>
     (\<Sum>h\<leftarrow>hist. usedValue h) = V \<and>
     map saleId hist = map docId (take (length hist) recs) \<and>
     map docId used = map docId (take (length hist) recs) \<and>
     map (\<lambda>d. num (availableCashback d)) used =
       map2 (-) (map (\<lambda>d. num (availableCashback d)) recs) (map usedValue hist)"
proof (induction recs arbitrary: V)
  case Nil
  then show ?case by simp
next
  case (Cons d recs)
  from Cons.prems(1) obtain av where av: "availableCashback d = Some av" "0 < av" by auto
  show ?case
  proof (cases "V = 0")
    case True
    then show ?thesis by simp
  next
    case False
    show ?thesis
    proof (cases "V \<le> av")
      case True
      with False av show ?thesis
        by (simp add: createCashbackFontHistory_def num_def)
    next
      case False
      with Cons.prems av have "0 \<le> V - av" "V - av \<le> (\<Sum>d\<leftarrow>recs. num (availableCashback d))"
        by (simp_all add: num_def)
      with Cons.IH [of "V - av"] Cons.prems(1)
      obtain hist used where r: "useLoop (V - av) key sid now recs = Inr (hist, used)"
          "map usedValue hist = allocate (V - av) (map (\<lambda>d. num (availableCashback d)) recs)"
          "(\<Sum>h\<leftarrow>hist. usedValue h) = V - av"
          "map saleId hist = map docId (take (length hist) recs)"
          "map docId used = map docId (take (length hist) recs)"
          "map (\<lambda>d. num (availableCashback d)) used =
             map2 (-) (map (\<lambda>d. num (availableCashback d)) recs) (map usedValue hist)"
        by auto
      with False \<open>V \<noteq> 0\<close> av show ?thesis
        by (simp add: createCashbackFontHistory_def num_def)
    qed
  qed
qed

lemma sum_insertDesc: "(\<Sum>x\<leftarrow>insertDesc d xs. f x) = (f d :: int) + (\<Sum>x\<leftarrow>xs. f x)"
  by (induction xs) auto

lemma sum_sortDesc: "(\<Sum>x\<leftarrow>sortDesc ds. f x) = (\<Sum>x\<leftarrow>ds. (f x :: int))"
  unfolding sortDesc_def by (induction ds) (simp_all add: sum_insertDesc)

lemma useCashback_consumes:
  assumes "0 \<le> V"
    and "V \<le> (\<Sum>d\<leftarrow>filter (\<lambda>d. cpf d = c \<and> status d = AVAILABLE \<and>
                    (case availableCashback d of None \<Rightarrow> False | Some v \<Rightarrow> 0 < v)) store.
               num (availableCashback d))"
  shows "\<exists>hist store'. useCashback V c key sid now store = Inr (hist, store') \<and>
           (\<Sum>h\<leftarrow>hist. usedValue h) = V \<and>
           map usedValue hist =
             allocate V (map (\<lambda>d. num (availableCashback d)) (findAvailable c store))"
proof -
  have "V \<le> (\<Sum>d\<leftarrow>findAvailable c store. num (availableCashback d))"
    using assms(2) by (simp add: findAvailable_def sum_sortDesc)
  from useLoop_greedy [OF findAvailable_positive assms(1) this, of key sid now]
  obtain hist used where r: "useLoop V key sid now (findAvailable c store) = Inr (hist, used)"
      "map usedValue hist =
         allocate V (map (\<lambda>d. num (availableCashback d)) (findAvailable c store))"
      "(\<Sum>h\<leftarrow>hist. usedValue h) = V"
    by blast
  then have "useCashback V c key sid now store = Inr (hist, foldl persist store used)"
    by (simp add: useCashback_def)
  with r(2,3) show ?thesis by blast
qed

text \<open>
  C1 at a failing input: the customer has two AVAILABLE records, record 1 expiring at 100
  with 300 and record 2 expiring at 200 with 700. The query sorts with
  \<^verbatim>\<open>{ expirateDate: -1 }\<close>, latest first. Redeeming 500 debits record 2 by 500 and leaves
  record 1, the one closest to expiring, untouched; redeeming 1000 debits record 2 by 700
  first and then record 1 by 300.
\<close>

theorem useCashback_latest_first:
  "map (\<lambda>d. (docId d, status d, expirateDate d, availableCashback d)) exStore =
     [(1, AVAILABLE, Some 100, Some 300), (2, AVAILABLE, Some 200, Some 700)] \<and>
   map_sum id (map (\<lambda>h. (saleId h, usedValue h)) \<circ> fst)
     (useCashback 500 (str ''123.456'') (Some (str ''NF9'')) 3 50 exStore) = Inr [(2, 500)] \<and>
   map_sum id (map (\<lambda>d. (docId d, availableCashback d)) \<circ> snd)
     (useCashback 500 (str ''123.456'') (Some (str ''NF9'')) 3 50 exStore) =
     Inr [(1, Some 300), (2, Some 200)] \<and>
   map_sum id (map (\<lambda>h. (saleId h, usedValue h)) \<circ> fst)
     (useCashback 1000 (str ''123.456'') (Some (str ''NF9'')) 3 50 exStore) = Inr [(2, 700), (1, 300)] \<and>
   map_sum id (map (\<lambda>d. (docId d, availableCashback d)) \<circ> snd)
     (useCashback 1000 (str ''123.456'') (Some (str ''NF9'')) 3 50 exStore) =
     Inr [(1, Some 0), (2, Some 0)]"
  by code_simp

end
